theory Spec2Isabelle
  imports Complex_Main "HOL-Library.Word"
begin

unbundle bit_operations_syntax

section \<open>The unsubscribe endpoint \<^verbatim>\<open>api/unsubscribe/[token].js\<close>\<close>

text \<open>
  The module exports one request handler. It decodes a signed token, checks its
  signature and expiry, records the address in a suppression table and answers the
  request. The embedding below follows the module top to bottom and keeps its names.

  JavaScript strings are modelled as \<^typ>\<open>string\<close>: one \<^typ>\<open>char\<close> is one code unit
  in the range 0 to 255, and \<open>length\<close> counts code units as \<^verbatim>\<open>.length\<close> does. Strings
  with a code unit above 255 are outside the model. Buffers are lists of bytes.
\<close>

type_synonym byte = "8 word"
type_synonym buffer = "byte list"

subsection \<open>Values of the language\<close>

text \<open>
  A JavaScript number is NaN, an infinity or a finite value. Every finite double is a
  rational, and the handler only compares numbers, so finite numbers are rationals.
\<close>

datatype number = NaN | NegInfinity | Finite rat | PosInfinity

text \<open>What \<^verbatim>\<open>JSON.parse\<close> can return. An object keeps its own properties as a list of pairs.\<close>

datatype jsval =
    JNull
  | JBool bool
  | JNum number
  | JStr string
  | JArr "jsval list"
  | JObj "(string \<times> jsval) list"

datatype exn = TypeError | QueryError

subsection \<open>String helpers of the language\<close>

text \<open>\<^verbatim>\<open>s.split(sep)\<close> with a separator of one code unit: always at least one part.\<close>

fun split :: "char \<Rightarrow> string \<Rightarrow> string list" where
  "split sep [] = [[]]"
| "split sep (c # cs) =
     (if c = sep then [] # split sep cs
      else (case split sep cs of
              [] \<Rightarrow> [[c]]
            | p # ps \<Rightarrow> (c # p) # ps))"

text \<open>
  \<^verbatim>\<open>s.trim()\<close> removes white space and line terminators from both ends. In the range
  of \<^typ>\<open>char\<close> these are TAB, LF, VT, FF, CR, SP and NBSP.
\<close>

definition is_space :: "char \<Rightarrow> bool" where
  "is_space c = (c \<in> set [CHR 0x09, CHR 0x0A, CHR 0x0B, CHR 0x0C, CHR 0x0D, CHR 0x20, CHR 0xA0])"

definition trim :: "string \<Rightarrow> string" where
  "trim s = rev (dropWhile is_space (rev (dropWhile is_space s)))"

text \<open>
  \<^verbatim>\<open>s.toLowerCase()\<close>: in the range of \<^typ>\<open>char\<close> the letters with a lower-case
  partner are A to Z and U+00C0 to U+00DE without the multiplication sign U+00D7; the
  partner is 32 code units further.
\<close>

definition upper_chars :: string where
  "upper_chars = ''ABCDEFGHIJKLMNOPQRSTUVWXYZ'' @
     [CHR 0xC0, CHR 0xC1, CHR 0xC2, CHR 0xC3, CHR 0xC4, CHR 0xC5, CHR 0xC6, CHR 0xC7,
      CHR 0xC8, CHR 0xC9, CHR 0xCA, CHR 0xCB, CHR 0xCC, CHR 0xCD, CHR 0xCE, CHR 0xCF,
      CHR 0xD0, CHR 0xD1, CHR 0xD2, CHR 0xD3, CHR 0xD4, CHR 0xD5, CHR 0xD6,
      CHR 0xD8, CHR 0xD9, CHR 0xDA, CHR 0xDB, CHR 0xDC, CHR 0xDD, CHR 0xDE]"

definition lower_chars :: string where
  "lower_chars = ''abcdefghijklmnopqrstuvwxyz'' @
     [CHR 0xE0, CHR 0xE1, CHR 0xE2, CHR 0xE3, CHR 0xE4, CHR 0xE5, CHR 0xE6, CHR 0xE7,
      CHR 0xE8, CHR 0xE9, CHR 0xEA, CHR 0xEB, CHR 0xEC, CHR 0xED, CHR 0xEE, CHR 0xEF,
      CHR 0xF0, CHR 0xF1, CHR 0xF2, CHR 0xF3, CHR 0xF4, CHR 0xF5, CHR 0xF6,
      CHR 0xF8, CHR 0xF9, CHR 0xFA, CHR 0xFB, CHR 0xFC, CHR 0xFD, CHR 0xFE]"

definition lower_char :: "char \<Rightarrow> char" where
  "lower_char c = (case map_of (zip upper_chars lower_chars) c of Some l \<Rightarrow> l | None \<Rightarrow> c)"

definition toLowerCase :: "string \<Rightarrow> string" where
  "toLowerCase s = map lower_char s"

subsection \<open>The runtime library\<close>

text \<open>
  The module calls library functions whose code is not part of the repository. The
  following are fields of a record, and the theorems hold for every such record:
  \<^item> \<open>hmac_sha256 key data\<close> is \<^verbatim>\<open>crypto.createHmac("sha256", key).update(data).digest()\<close>;
  \<^item> \<open>JSON_parse_utf8 raw\<close> is \<^verbatim>\<open>JSON.parse(raw.toString("utf8"))\<close>, \<open>None\<close> when it throws;
  \<^item> \<open>StringToNumber\<close> is the conversion \<^verbatim>\<open>Number(s)\<close> of a string;
  \<^item> \<open>NumberToString\<close> is the conversion \<^verbatim>\<open>String(n)\<close> of a number;
  \<^item> \<open>URL_with_search base params\<close> is \<^verbatim>\<open>new URL(base)\<close> with the search parameters
    set in order and serialised, \<open>None\<close> when the constructor throws.
\<close>

record runtime =
  hmac_sha256 :: "string \<Rightarrow> buffer \<Rightarrow> buffer"
  JSON_parse_utf8 :: "buffer \<Rightarrow> jsval option"
  StringToNumber :: "string \<Rightarrow> number"
  NumberToString :: "number \<Rightarrow> string"
  URL_with_search :: "string \<Rightarrow> (string \<times> string) list \<Rightarrow> string option"

text \<open>
  The other library functions are modelled by what their documentation says.
  \<^verbatim>\<open>Buffer.from(s, "base64")\<close> never throws. It accepts the standard and the URL-safe
  alphabet, skips every other character and stops at the first \<open>=\<close>. Four sextets
  give three bytes; two or three trailing sextets give one or two bytes, a single
  trailing sextet none.
\<close>

definition unbase64 :: "char \<Rightarrow> nat option" where
  "unbase64 c =
     (let n = (of_char c :: nat) in
      if 65 \<le> n \<and> n \<le> 90 then Some (n - 65)
      else if 97 \<le> n \<and> n \<le> 122 then Some (n - 71)
      else if 48 \<le> n \<and> n \<le> 57 then Some (n + 4)
      else if c = CHR ''+'' \<or> c = CHR ''-'' then Some 62
      else if c = CHR ''/'' \<or> c = CHR ''_'' then Some 63
      else None)"

fun sextets :: "string \<Rightarrow> nat list" where
  "sextets [] = []"
| "sextets (c # cs) =
     (case unbase64 c of
        Some v \<Rightarrow> v # sextets cs
      | None \<Rightarrow> if c = CHR ''='' then [] else sextets cs)"

fun bytes_of_sextets :: "nat list \<Rightarrow> buffer" where
  "bytes_of_sextets (a # b # c # d # rest) =
     of_nat (a * 4 + b div 16) # of_nat (b mod 16 * 16 + c div 4) # of_nat (c mod 4 * 64 + d)
       # bytes_of_sextets rest"
| "bytes_of_sextets [a, b, c] = [of_nat (a * 4 + b div 16), of_nat (b mod 16 * 16 + c div 4)]"
| "bytes_of_sextets [a, b] = [of_nat (a * 4 + b div 16)]"
| "bytes_of_sextets _ = []"

definition Buffer_from_base64 :: "string \<Rightarrow> buffer" where
  "Buffer_from_base64 s = bytes_of_sextets (sextets s)"

text \<open>
  \<^verbatim>\<open>crypto.timingSafeEqual(a, b)\<close> on buffers of one length: the differences of all
  byte pairs are accumulated, and the result is read once at the end.
\<close>

definition timingSafeEqual :: "buffer \<Rightarrow> buffer \<Rightarrow> bool" where
  "timingSafeEqual a b = (foldl (\<lambda>acc (x, y). acc OR (x XOR y)) 0 (zip a b) = 0)"

text \<open>
  The conversions on parsed values. \<open>None\<close> stands for \<^verbatim>\<open>undefined\<close>, the value of a
  property that is absent. Reading a property of \<^verbatim>\<open>null\<close> throws a TypeError; the
  primitive values and arrays have no property named \<^verbatim>\<open>email\<close> or \<^verbatim>\<open>exp\<close>.
\<close>

fun get_property :: "jsval \<Rightarrow> string \<Rightarrow> exn + jsval option" where
  "get_property JNull k = Inl TypeError"
| "get_property (JObj kvs) k = Inr (map_of kvs k)"
| "get_property _ k = Inr None"

text \<open>\<^verbatim>\<open>!v\<close> is \<open>\<not> truthy v\<close>.\<close>

fun truthy :: "jsval option \<Rightarrow> bool" where
  "truthy None = False"
| "truthy (Some JNull) = False"
| "truthy (Some (JBool b)) = b"
| "truthy (Some (JNum n)) = (n \<noteq> NaN \<and> n \<noteq> Finite 0)"
| "truthy (Some (JStr s)) = (s \<noteq> [])"
| "truthy (Some (JArr xs)) = True"
| "truthy (Some (JObj kvs)) = True"

fun join :: "string \<Rightarrow> string list \<Rightarrow> string" where
  "join sep [] = []"
| "join sep [x] = x"
| "join sep (x # y # ys) = x @ sep @ join sep (y # ys)"

text \<open>The results of a list of conversions, or the first exception.\<close>

fun collect :: "(exn + 'a) list \<Rightarrow> exn + 'a list" where
  "collect [] = Inr []"
| "collect (x # xs) =
     (case x of
        Inl e \<Rightarrow> Inl e
      | Inr v \<Rightarrow> (case collect xs of Inl e \<Rightarrow> Inl e | Inr vs \<Rightarrow> Inr (v # vs)))"

text \<open>
  \<^verbatim>\<open>String(v)\<close>. An array joins the strings of its elements, \<^verbatim>\<open>null\<close> counting as
  empty. An object is converted by its method \<^verbatim>\<open>toString\<close>: the inherited one
  returns \<^verbatim>\<open>[object Object]\<close>, and an own property of that name, which in a parsed
  value is never a function, leaves no method that returns a primitive value, so the
  conversion throws a TypeError.
\<close>

fun ToString :: "runtime \<Rightarrow> jsval \<Rightarrow> exn + string" where
  "ToString rt JNull = Inr ''null''"
| "ToString rt (JBool b) = Inr (if b then ''true'' else ''false'')"
| "ToString rt (JNum n) = Inr (NumberToString rt n)"
| "ToString rt (JStr s) = Inr s"
| "ToString rt (JArr xs) =
     (case collect (map (\<lambda>x. if x = JNull then Inr [] else ToString rt x) xs) of
        Inl e \<Rightarrow> Inl e
      | Inr parts \<Rightarrow> Inr (join '','' parts))"
| "ToString rt (JObj kvs) =
     (if map_of kvs ''toString'' \<noteq> None then Inl TypeError else Inr ''[object Object]'')"

text \<open>\<^verbatim>\<open>Number(v)\<close>. An array or object is converted to its string first.\<close>

fun ToNumber :: "runtime \<Rightarrow> jsval option \<Rightarrow> exn + number" where
  "ToNumber rt None = Inr NaN"
| "ToNumber rt (Some JNull) = Inr (Finite 0)"
| "ToNumber rt (Some (JBool b)) = Inr (Finite (if b then 1 else 0))"
| "ToNumber rt (Some (JNum n)) = Inr n"
| "ToNumber rt (Some (JStr s)) = Inr (StringToNumber rt s)"
| "ToNumber rt (Some (JArr xs)) =
     (case ToString rt (JArr xs) of Inl e \<Rightarrow> Inl e | Inr s \<Rightarrow> Inr (StringToNumber rt s))"
| "ToNumber rt (Some (JObj kvs)) =
     (case ToString rt (JObj kvs) of Inl e \<Rightarrow> Inl e | Inr s \<Rightarrow> Inr (StringToNumber rt s))"

text \<open>\<^verbatim>\<open>a > b\<close> on numbers: false as soon as one side is NaN.\<close>

fun js_gt :: "number \<Rightarrow> number \<Rightarrow> bool" where
  "js_gt NaN b = False"
| "js_gt a NaN = False"
| "js_gt (Finite a) (Finite b) = (b < a)"
| "js_gt (Finite a) NegInfinity = True"
| "js_gt (Finite a) PosInfinity = False"
| "js_gt PosInfinity b = (b \<noteq> PosInfinity)"
| "js_gt NegInfinity b = False"

subsection \<open>Helpers of the module (lines 28 to 54)\<close>

text \<open>
  \<^verbatim>\<open>base64urlToBuffer\<close> (lines 29 to 34): the two URL-safe characters are replaced, the
  padding is restored and the result is decoded.
\<close>

definition base64urlToBuffer :: "string \<Rightarrow> buffer" where
  "base64urlToBuffer b64url =
     (let rem = length b64url mod 4;
          pad = (if rem \<noteq> 0 then 4 - rem else 0);
          b64 = map (\<lambda>c. if c = CHR ''_'' then CHR ''/'' else c)
                  (map (\<lambda>c. if c = CHR ''-'' then CHR ''+'' else c) b64url)
                @ replicate pad (CHR ''='')
      in Buffer_from_base64 b64)"

text \<open>\<^verbatim>\<open>safeEqual\<close> (lines 36 to 41): the lengths are compared first.\<close>

definition safeEqual :: "buffer \<Rightarrow> buffer \<Rightarrow> bool" where
  "safeEqual a b = (if length a \<noteq> length b then False else timingSafeEqual a b)"


text \<open>
  \<^verbatim>\<open>esc\<close> (lines 43 to 47) replaces the five characters that are special in HTML. The
  double quote is \<open>CHR 0x22\<close> and the single quote \<open>CHR 0x27\<close>.
\<close>

definition esc_char :: "char \<Rightarrow> string" where
  "esc_char m =
     (if m = CHR ''&'' then ''&amp;''
      else if m = CHR ''<'' then ''&lt;''
      else if m = CHR ''>'' then ''&gt;''
      else if m = CHR 0x22 then ''&quot;''
      else if m = CHR 0x27 then ''&#39;''
      else [m])"

definition esc :: "string \<Rightarrow> string" where
  "esc s = concat (map esc_char s)"

text \<open>
  \<^verbatim>\<open>maskEmail\<close> (lines 49 to 54). The destructuring \<^verbatim>\<open>[local, domain]\<close> takes the
  first two parts of the split; \<^verbatim>\<open>domain\<close> is undefined when there is one part only,
  and \<^verbatim>\<open>!domain\<close> also holds for the empty string. \<^verbatim>\<open>local[0] || ""\<close> is the first code
  unit of \<^verbatim>\<open>local\<close>, or nothing when \<^verbatim>\<open>local\<close> is empty.
\<close>

definition maskEmail :: "string \<Rightarrow> string" where
  "maskEmail email =
     (case split (CHR ''@'') email of
        local # domain # _ \<Rightarrow>
          (if domain = [] then email
           else if length local \<le> 2 then take 1 local @ ''***@'' @ domain
           else take 2 local @ ''***@'' @ domain)
      | _ \<Rightarrow> email)"

subsection \<open>The environment (lines 6 to 26)\<close>

text \<open>
  \<^verbatim>\<open>process.env.X || d\<close> is \<open>d\<close> when the variable is unset or empty. The pool of line
  18 is present when a database was configured; it is passed to the handler as an
  optional database.
\<close>

record process_env =
  env_UNSUB_SECRET :: "string option"
  env_VISIBLE_UNSUB_REDIRECT :: "string option"

definition or_default :: "string option \<Rightarrow> string \<Rightarrow> string" where
  "or_default v d = (case v of None \<Rightarrow> d | Some s \<Rightarrow> if s = [] then d else s)"

definition UNSUB_SECRET :: "process_env \<Rightarrow> string" where
  "UNSUB_SECRET env = or_default (env_UNSUB_SECRET env) ''CHANGE_THIS_SECRET''"

definition VISIBLE_UNSUB_REDIRECT :: "process_env \<Rightarrow> string" where
  "VISIBLE_UNSUB_REDIRECT env = or_default (env_VISIBLE_UNSUB_REDIRECT env) []"

subsection \<open>The suppression table (lines 56 to 75)\<close>

text \<open>
  The table \<^verbatim>\<open>suppression\<close> is a list of rows, or absent before it is created. The
  database has a clock (the value of \<^verbatim>\<open>now()\<close>), may reject a statement, and
  keeps the statements it received. The module sends two statements.
\<close>

record row =
  col_email :: string
  col_source :: string
  col_reason :: string
  col_ts :: nat

datatype statement =
    CREATE_TABLE_IF_NOT_EXISTS
  | INSERT_ON_CONFLICT_DO_UPDATE string string

record database =
  suppression :: "row list option"
  db_now :: nat
  rejects :: "statement \<Rightarrow> bool"
  received :: "statement list"

text \<open>The rows of the table; there are none before the table exists.\<close>

definition table :: "database \<Rightarrow> row list" where
  "table db = (case suppression db of None \<Rightarrow> [] | Some rows \<Rightarrow> rows)"

text \<open>
  \<^verbatim>\<open>INSERT ... ON CONFLICT (email) DO UPDATE SET source, reason, ts\<close>: the row with the
  same key takes the new values of the three columns; without such a row the new row
  is added.
\<close>

fun upsert :: "row list \<Rightarrow> row \<Rightarrow> row list" where
  "upsert [] r = [r]"
| "upsert (x # xs) r =
     (if col_email x = col_email r
      then x\<lparr>col_source := col_source r, col_reason := col_reason r, col_ts := col_ts r\<rparr> # xs
      else x # upsert xs r)"

text \<open>\<^verbatim>\<open>pool.query(statement)\<close>: the error thrown, if any, and the database afterwards.\<close>

definition pool_query :: "database \<Rightarrow> statement \<Rightarrow> exn option \<times> database" where
  "pool_query db st =
     (let db1 = db\<lparr>received := received db @ [st]\<rparr> in
      if rejects db st then (Some QueryError, db1)
      else (case st of
              CREATE_TABLE_IF_NOT_EXISTS \<Rightarrow>
                (case suppression db of
                   None \<Rightarrow> (None, db1\<lparr>suppression := Some []\<rparr>)
                 | Some rows \<Rightarrow> (None, db1))
            | INSERT_ON_CONFLICT_DO_UPDATE email source \<Rightarrow>
                (case suppression db of
                   None \<Rightarrow> (Some QueryError, db1)
                 | Some rows \<Rightarrow>
                     (None, db1\<lparr>suppression := Some (upsert rows
                        \<lparr>col_email = email, col_source = source,
                         col_reason = ''user-request'', col_ts = db_now db\<rparr>)\<rparr>))))"

text \<open>\<^verbatim>\<open>saveSuppression\<close>: without a pool it returns at once; an error of a query propagates.\<close>

definition saveSuppression ::
  "database option \<Rightarrow> string \<Rightarrow> string \<Rightarrow> exn option \<times> database option" where
  "saveSuppression pool email source =
     (case pool of
        None \<Rightarrow> (None, None)
      | Some db \<Rightarrow>
          (case pool_query db CREATE_TABLE_IF_NOT_EXISTS of
             (Some e, db1) \<Rightarrow> (Some e, Some db1)
           | (None, db1) \<Rightarrow>
               (case pool_query db1 (INSERT_ON_CONFLICT_DO_UPDATE email source) of
                  (r, db2) \<Rightarrow> (r, Some db2))))"

text \<open>
  Successive calls for one address: each call comes with its source and with the time
  the database clock shows when it arrives.
\<close>

fun save_all :: "database \<Rightarrow> string \<Rightarrow> (string \<times> nat) list \<Rightarrow> exn option list \<times> database" where
  "save_all db email [] = ([], db)"
| "save_all db email ((source, t) # calls) =
     (case saveSuppression (Some (db\<lparr>db_now := t\<rparr>)) email source of
        (r, Some db1) \<Rightarrow> (case save_all db1 email calls of (rs, db2) \<Rightarrow> (r # rs, db2))
      | (r, None) \<Rightarrow> (case save_all db email calls of (rs, db2) \<Rightarrow> (r # rs, db2)))"

subsection \<open>Request and response\<close>

text \<open>
  \<^verbatim>\<open>req.query.token\<close> is absent, one string or an array of strings. The response
  object starts with status 200 and no headers; \<open>sent\<close> is the body once the response
  was ended. The inline page of lines 155 to 195 is a fixed template around one
  computed string, so it is the constructor \<open>ConfirmationPage\<close> of that string.
\<close>

datatype query_value = Absent | One string | Many "string list"

record request =
  http_method :: string
  query_token :: query_value

datatype body = Text string | ConfirmationPage string

record response =
  headers :: "(string \<times> string) list"
  statusCode :: nat
  sent :: "body option"

definition res0 :: response where
  "res0 = \<lparr>headers = [], statusCode = 200, sent = None\<rparr>"

definition setHeader :: "response \<Rightarrow> string \<Rightarrow> string \<Rightarrow> response" where
  "setHeader r name v = r\<lparr>headers := (name, v) # filter (\<lambda>h. fst h \<noteq> name) (headers r)\<rparr>"

definition getHeader :: "response \<Rightarrow> string \<Rightarrow> string option" where
  "getHeader r name = map_of (headers r) name"

definition status :: "response \<Rightarrow> nat \<Rightarrow> response" where
  "status r code = r\<lparr>statusCode := code\<rparr>"

definition send :: "response \<Rightarrow> body \<Rightarrow> response" where
  "send r b = r\<lparr>sent := Some b\<rparr>"

subsection \<open>The handler (lines 78 to 196)\<close>

text \<open>
  Lines 94 to 105: the decoded token is split into the payload, the separator and the
  signature of 32 bytes. \<open>None\<close> is the branch that answers \<^verbatim>\<open>bad token\<close>.
\<close>

definition split_token :: "string \<Rightarrow> (buffer \<times> buffer) option" where
  "split_token token =
     (let buf = base64urlToBuffer token in
      if length buf < 33 then None
      else
        let sig = drop (length buf - 32) buf;
            sep = buf ! (length buf - 33)
        in if sep \<noteq> 46 then None
           else Some (take (length buf - 33) buf, sig))"

text \<open>
  What the checks on the token end in. \<open>Rejected tag\<close> is the answer
  \<^verbatim>\<open>res.status(400).send(tag)\<close>, \<open>Thrown\<close> an exception that nothing catches,
  \<open>Verified\<close> the normalised address.
\<close>

datatype outcome = Rejected string | Thrown exn | Verified string

definition String_of :: "runtime \<Rightarrow> jsval option \<Rightarrow> exn + string" where
  "String_of rt v = (case v of None \<Rightarrow> Inr ''undefined'' | Some x \<Rightarrow> ToString rt x)"

text \<open>
  Lines 113 to 128: the payload is parsed, the two fields are required, the expiry is
  compared with \<open>now\<close>, the value of \<^verbatim>\<open>Date.now() / 1000\<close>, and the address is
  normalised. \<^verbatim>\<open>!payload.email || !payload.exp\<close> reads \<^verbatim>\<open>exp\<close> only when \<^verbatim>\<open>email\<close> is
  truthy. The two conversions can throw.
\<close>

definition check_payload :: "runtime \<Rightarrow> rat \<Rightarrow> buffer \<Rightarrow> outcome" where
  "check_payload rt now raw =
     (case JSON_parse_utf8 rt raw of
        None \<Rightarrow> Rejected ''payload''
      | Some payload \<Rightarrow>
          (case get_property payload ''email'' of
             Inl e \<Rightarrow> Thrown e
           | Inr email_v \<Rightarrow>
               if \<not> truthy email_v then Rejected ''payload''
               else
                 (case get_property payload ''exp'' of
                    Inl e \<Rightarrow> Thrown e
                  | Inr exp_v \<Rightarrow>
                      if \<not> truthy exp_v then Rejected ''payload''
                      else
                        (case ToNumber rt exp_v of
                           Inl e \<Rightarrow> Thrown e
                         | Inr n \<Rightarrow>
                             if js_gt (Finite now) n then Rejected ''expired''
                             else
                               (case String_of rt email_v of
                                  Inl e \<Rightarrow> Thrown e
                                | Inr s \<Rightarrow> Verified (toLowerCase (trim s)))))))"

text \<open>Lines 94 to 128: the split, the signature and the payload, in this order.\<close>

definition verify :: "runtime \<Rightarrow> string \<Rightarrow> rat \<Rightarrow> string \<Rightarrow> outcome" where
  "verify rt secret now token =
     (case split_token token of
        None \<Rightarrow> Rejected ''bad token''
      | Some (raw, sig) \<Rightarrow>
          (let expected = hmac_sha256 rt secret raw in
           if \<not> safeEqual expected sig then Rejected ''signature''
           else check_payload rt now raw))"

text \<open>Lines 86 to 88: the first element of an array, or the value itself.\<close>

definition first_token :: "query_value \<Rightarrow> string option" where
  "first_token q =
     (case q of
        Many ts \<Rightarrow> (case ts of [] \<Rightarrow> None | t # _ \<Rightarrow> Some t)
      | One t \<Rightarrow> Some t
      | Absent \<Rightarrow> None)"

text \<open>
  What a call of the handler leaves behind: the response object, the pool, the lines
  written with \<^verbatim>\<open>console.error\<close>, and the exception if the call threw.
\<close>

record result =
  res :: response
  pool_after :: "database option"
  console_error :: "string list"
  thrown :: "exn option"

definition handler ::
  "runtime \<Rightarrow> process_env \<Rightarrow> rat \<Rightarrow> database option \<Rightarrow> request \<Rightarrow> result" where
  "handler rt env now pool req =
     (let res1 = setHeader res0 ''Cache-Control'' ''no-store, max-age=0'' in
      if http_method req \<noteq> ''GET'' \<and> http_method req \<noteq> ''POST'' then
        \<lparr>res = send (status (setHeader res1 ''Allow'' ''GET, POST'') 405) (Text ''Method Not Allowed''),
         pool_after = pool, console_error = [], thrown = None\<rparr>
      else
        (let token = first_token (query_token req)
         in case token of
              None \<Rightarrow>
                \<lparr>res = send (status res1 400) (Text ''missing token''),
                 pool_after = pool, console_error = [], thrown = None\<rparr>
            | Some tok \<Rightarrow>
                if tok = [] then
                  \<lparr>res = send (status res1 400) (Text ''missing token''),
                   pool_after = pool, console_error = [], thrown = None\<rparr>
                else
                  (case verify rt (UNSUB_SECRET env) now tok of
                     Rejected tag \<Rightarrow>
                       \<lparr>res = send (status res1 400) (Text tag),
                        pool_after = pool, console_error = [], thrown = None\<rparr>
                   | Thrown e \<Rightarrow>
                       \<lparr>res = res1, pool_after = pool, console_error = [], thrown = Some e\<rparr>
                   | Verified email \<Rightarrow>
                       (case saveSuppression pool email
                               (if http_method req = ''POST'' then ''one-click'' else ''web'') of
                          (err, pool1) \<Rightarrow>
                            (let console = (case err of
                                              None \<Rightarrow> []
                                            | Some e \<Rightarrow> [''suppression save failed:''])
                             in
                             if http_method req = ''POST'' then
                               \<lparr>res = send (status res1 204) (Text []),
                                pool_after = pool1, console_error = console, thrown = None\<rparr>
                             else
                               (let masked = maskEmail email in
                                if VISIBLE_UNSUB_REDIRECT env \<noteq> [] then
                                  (case URL_with_search rt (VISIBLE_UNSUB_REDIRECT env)
                                          [(''status'', ''success''), (''email'', masked)] of
                                     None \<Rightarrow>
                                       \<lparr>res = res1, pool_after = pool1,
                                        console_error = console, thrown = Some TypeError\<rparr>
                                   | Some location \<Rightarrow>
                                       \<lparr>res = send (status (setHeader res1 ''Location'' location) 302)
                                                (Text []),
                                        pool_after = pool1, console_error = console,
                                        thrown = None\<rparr>)
                                else
                                  \<lparr>res = send (status (setHeader res1 ''Content-Type''
                                                          ''text/html; charset=utf-8'') 200)
                                           (ConfirmationPage (esc (maskEmail email))),
                                   pool_after = pool1, console_error = console,
                                   thrown = None\<rparr>))))))"

subsection \<open>The token wire format\<close>

text \<open>
  Modelled from the spec: the issuer of tokens is not part of the repository. Section 6
  of the specification gives the wire format: the URL-safe base64 text of the payload
  bytes, the byte 0x2E and the 32 bytes of the signature. \<open>base64url_encode\<close> writes
  no padding, \<open>base64url_encode_padded\<close> fills the last group with \<open>=\<close>.
\<close>

definition base64url_alphabet :: string where
  "base64url_alphabet = ''ABCDEFGHIJKLMNOPQRSTUVWXYZabcdefghijklmnopqrstuvwxyz0123456789-_''"

fun sextets_of_bytes :: "buffer \<Rightarrow> nat list" where
  "sextets_of_bytes (x # y # z # rest) =
     unat x div 4 # (unat x mod 4 * 16 + unat y div 16) # (unat y mod 16 * 4 + unat z div 64)
       # unat z mod 64 # sextets_of_bytes rest"
| "sextets_of_bytes [x, y] = [unat x div 4, unat x mod 4 * 16 + unat y div 16, unat y mod 16 * 4]"
| "sextets_of_bytes [x] = [unat x div 4, unat x mod 4 * 16]"
| "sextets_of_bytes [] = []"

definition base64url_encode :: "buffer \<Rightarrow> string" where
  "base64url_encode bs = map (\<lambda>v. base64url_alphabet ! v) (sextets_of_bytes bs)"

definition base64url_encode_padded :: "buffer \<Rightarrow> string" where
  "base64url_encode_padded bs =
     (let s = base64url_encode bs in s @ replicate ((4 - length s mod 4) mod 4) (CHR ''=''))"

definition encode_token :: "runtime \<Rightarrow> string \<Rightarrow> buffer \<Rightarrow> string" where
  "encode_token rt secret payload_bytes =
     base64url_encode (payload_bytes @ [0x2E] @ hmac_sha256 rt secret payload_bytes)"

subsection \<open>HMAC-SHA256\<close>

text \<open>
  SHA-256 as FIPS 180-4 defines it, on messages of whole bytes, and HMAC as RFC 2104
  defines it for a hash with blocks of 64 bytes. The round constants are the first 32
  bits of the fractional parts of the cube roots of the first 64 primes, the initial
  hash value those of the square roots of the first 8 primes.
\<close>

type_synonym word32 = "32 word"

definition sha256_K :: "word32 list" where
  "sha256_K =
     [0x428A2F98, 0x71374491, 0xB5C0FBCF, 0xE9B5DBA5, 0x3956C25B, 0x59F111F1,
      0x923F82A4, 0xAB1C5ED5, 0xD807AA98, 0x12835B01, 0x243185BE, 0x550C7DC3,
      0x72BE5D74, 0x80DEB1FE, 0x9BDC06A7, 0xC19BF174, 0xE49B69C1, 0xEFBE4786,
      0x0FC19DC6, 0x240CA1CC, 0x2DE92C6F, 0x4A7484AA, 0x5CB0A9DC, 0x76F988DA,
      0x983E5152, 0xA831C66D, 0xB00327C8, 0xBF597FC7, 0xC6E00BF3, 0xD5A79147,
      0x06CA6351, 0x14292967, 0x27B70A85, 0x2E1B2138, 0x4D2C6DFC, 0x53380D13,
      0x650A7354, 0x766A0ABB, 0x81C2C92E, 0x92722C85, 0xA2BFE8A1, 0xA81A664B,
      0xC24B8B70, 0xC76C51A3, 0xD192E819, 0xD6990624, 0xF40E3585, 0x106AA070,
      0x19A4C116, 0x1E376C08, 0x2748774C, 0x34B0BCB5, 0x391C0CB3, 0x4ED8AA4A,
      0x5B9CCA4F, 0x682E6FF3, 0x748F82EE, 0x78A5636F, 0x84C87814, 0x8CC70208,
      0x90BEFFFA, 0xA4506CEB, 0xBEF9A3F7, 0xC67178F2]"

definition sha256_H0 :: "word32 list" where
  "sha256_H0 =
     [0x6A09E667, 0xBB67AE85, 0x3C6EF372, 0xA54FF53A,
      0x510E527F, 0x9B05688C, 0x1F83D9AB, 0x5BE0CD19]"

definition rotr :: "nat \<Rightarrow> word32 \<Rightarrow> word32" where
  "rotr n x = drop_bit n x OR push_bit (32 - n) x"

definition be32 :: "byte \<Rightarrow> byte \<Rightarrow> byte \<Rightarrow> byte \<Rightarrow> word32" where
  "be32 a b c d = push_bit 24 (ucast a) OR push_bit 16 (ucast b) OR push_bit 8 (ucast c) OR ucast d"

definition bytes_of_word32 :: "word32 \<Rightarrow> buffer" where
  "bytes_of_word32 w = [ucast (drop_bit 24 w), ucast (drop_bit 16 w), ucast (drop_bit 8 w), ucast w]"

fun words_of_bytes :: "buffer \<Rightarrow> word32 list" where
  "words_of_bytes (a # b # c # d # rest) = be32 a b c d # words_of_bytes rest"
| "words_of_bytes _ = []"

text \<open>
  The padding: the byte 0x80, zero bytes up to 56 modulo 64, and the length of the
  message in bits as 8 bytes, the most significant first.
\<close>

definition sha256_pad :: "buffer \<Rightarrow> buffer" where
  "sha256_pad msg =
     msg @ [0x80] @ replicate ((119 - length msg mod 64) mod 64) 0
       @ map (\<lambda>i. ucast (drop_bit (8 * (7 - i)) (of_nat (8 * length msg) :: 64 word))) [0..<8]"

text \<open>The message schedule: \<open>schedule 48\<close> extends the 16 words of a block to 64.\<close>

fun schedule :: "nat \<Rightarrow> word32 list \<Rightarrow> word32 list" where
  "schedule 0 w = w"
| "schedule (Suc n) w =
     (let t = length w;
          x15 = w ! (t - 15);
          x2 = w ! (t - 2);
          s0 = rotr 7 x15 XOR rotr 18 x15 XOR drop_bit 3 x15;
          s1 = rotr 17 x2 XOR rotr 19 x2 XOR drop_bit 10 x2
      in schedule n (w @ [w ! (t - 16) + s0 + w ! (t - 7) + s1]))"

type_synonym sha_state =
  "word32 \<times> word32 \<times> word32 \<times> word32 \<times> word32 \<times> word32 \<times> word32 \<times> word32"

fun sha256_round :: "sha_state \<Rightarrow> word32 \<times> word32 \<Rightarrow> sha_state" where
  "sha256_round (a, b, c, d, e, f, g, h) (k, w) =
     (let S1 = rotr 6 e XOR rotr 11 e XOR rotr 25 e;
          ch = (e AND f) XOR (NOT e AND g);
          t1 = h + S1 + ch + k + w;
          S0 = rotr 2 a XOR rotr 13 a XOR rotr 22 a;
          maj = (a AND b) XOR (a AND c) XOR (b AND c);
          t2 = S0 + maj
      in (t1 + t2, a, b, c, d + t1, e, f, g))"

fun compress :: "sha_state \<Rightarrow> word32 list \<Rightarrow> sha_state" where
  "compress (a, b, c, d, e, f, g, h) block =
     (case foldl sha256_round (a, b, c, d, e, f, g, h) (zip sha256_K (schedule 48 block)) of
        (a', b', c', d', e', f', g', h') \<Rightarrow>
          (a + a', b + b', c + c', d + d', e + e', f + f', g + g', h + h'))"

fun blocks :: "nat \<Rightarrow> word32 list \<Rightarrow> word32 list list" where
  "blocks 0 ws = []"
| "blocks (Suc n) ws = take 16 ws # blocks n (drop 16 ws)"

definition sha256 :: "buffer \<Rightarrow> buffer" where
  "sha256 msg =
     (let ws = words_of_bytes (sha256_pad msg) in
      case foldl compress
             (sha256_H0 ! 0, sha256_H0 ! 1, sha256_H0 ! 2, sha256_H0 ! 3,
              sha256_H0 ! 4, sha256_H0 ! 5, sha256_H0 ! 6, sha256_H0 ! 7)
             (blocks (length ws div 16) ws) of
        (a, b, c, d, e, f, g, h) \<Rightarrow> concat (map bytes_of_word32 [a, b, c, d, e, f, g, h]))"

definition HMAC_SHA256 :: "buffer \<Rightarrow> buffer \<Rightarrow> buffer" where
  "HMAC_SHA256 key data =
     (let k0 = (if 64 < length key then sha256 key else key);
          k = k0 @ replicate (64 - length k0) 0
      in sha256 (map (\<lambda>b. b XOR 0x5C) k @ sha256 (map (\<lambda>b. b XOR 0x36) k @ data)))"

subsection \<open>A runtime for the examples\<close>

text \<open>
  The theorems hold for every runtime. The examples evaluate the handler on one
  runtime, whose functions agree with the library on the arguments the examples use:
  \<^item> the digest is HMAC-SHA256 with the UTF-8 bytes of the key;
  \<^item> \<open>example_parse\<close> knows the JSON texts of the examples and rejects every other text;
  \<^item> the one string that the examples convert to a number, \<open>never\<close>, is not numeric, and
    the examples convert no number to a string;
  \<^item> \<open>example_URL\<close> accepts an \<open>https\<close> address without a query and writes \<open>@\<close> as \<open>%40\<close>.
\<close>

text \<open>The UTF-8 bytes of a string: one byte below 128, two bytes from 128 to 255.\<close>

definition utf8 :: "string \<Rightarrow> buffer" where
  "utf8 s = concat (map (\<lambda>c. let n = (of_char c :: nat) in
                             if n < 128 then [of_nat n]
                             else [of_nat (192 + n div 64), of_nat (128 + n mod 64)]) s)"

definition example_parse :: "buffer \<Rightarrow> jsval option" where
  "example_parse raw = map_of
     [(utf8 ''{\"email\":\"Jane.Doe@Example.com \",\"exp\":4102444800}'',
         JObj [(''email'', JStr ''Jane.Doe@Example.com ''), (''exp'', JNum (Finite 4102444800))]),
      (utf8 ''{\"email\":\"a@b.c\",\"exp\":100}'',
         JObj [(''email'', JStr ''a@b.c''), (''exp'', JNum (Finite 100))]),
      (utf8 ''{\"email\":\"a@b.c\",\"exp\":0}'',
         JObj [(''email'', JStr ''a@b.c''), (''exp'', JNum (Finite 0))]),
      (utf8 ''{\"email\":\"a@b.c\",\"exp\":\"never\"}'',
         JObj [(''email'', JStr ''a@b.c''), (''exp'', JStr ''never'')]),
      (utf8 ''{\"email\":\"a@b.c\"}'',
         JObj [(''email'', JStr ''a@b.c'')])] raw"

definition example_URL :: "string \<Rightarrow> (string \<times> string) list \<Rightarrow> string option" where
  "example_URL base params =
     (if take 8 base = ''https://'' \<and> CHR ''?'' \<notin> set base
      then Some (base @ ''?'' @ join ''&''
             (map (\<lambda>(k, v). k @ ''='' @ concat (map (\<lambda>c. if c = CHR ''@'' then ''%40'' else [c]) v))
                params))
      else None)"

definition example_rt :: runtime where
  "example_rt =
     \<lparr>hmac_sha256 = (\<lambda>key data. HMAC_SHA256 (utf8 key) data),
      JSON_parse_utf8 = example_parse,
      StringToNumber = (\<lambda>s. NaN),
      NumberToString = (\<lambda>n. ''NaN''),
      URL_with_search = example_URL\<rparr>"

definition example_db :: database where
  "example_db = \<lparr>suppression = None, db_now = 1000, rejects = (\<lambda>st. False), received = []\<rparr>"

definition failing_db :: database where
  "failing_db = \<lparr>suppression = None, db_now = 1000, rejects = (\<lambda>st. True), received = []\<rparr>"

section \<open>Properties\<close>

subsection \<open>Base64\<close>

text \<open>
  The decoder of the handler inverts the encoder of the wire format, with and without
  padding. The proof goes through the sextets: each group of three bytes gives four
  sextets below 64, each sextet is found again from its character, and the four
  sextets give the three bytes back.
\<close>

lemma alphabet_map: "map unbase64 base64url_alphabet = map Some [0..<64]"
  by (simp add: unbase64_def base64url_alphabet_def upt_conv_Cons)

lemma unbase64_alphabet: "v < 64 \<Longrightarrow> unbase64 (base64url_alphabet ! v) = Some v"
proof -
  assume v: "v < 64"
  have len: "length base64url_alphabet = 64" by (simp add: base64url_alphabet_def)
  have "unbase64 (base64url_alphabet ! v) = map unbase64 base64url_alphabet ! v"
    using v len by simp
  also have "\<dots> = Some v" using v by (simp only: alphabet_map) simp
  finally show ?thesis .
qed

lemma byte_bound: "unat (x :: byte) < 256"
  using unsigned_less [of x, where 'a = nat] by simp

lemma unbase64_replace:
  "unbase64 (if (if c = CHR ''-'' then CHR ''+'' else c) = CHR ''_'' then CHR ''/'' else (if c = CHR ''-'' then CHR ''+'' else c)) = unbase64 c"
  by (simp add: unbase64_def)

lemma div16: "b < 16 \<Longrightarrow> (a * 16 + b) div 16 = (a::nat)" by simp

lemma mod16: "b < 16 \<Longrightarrow> (a * 16 + b) mod 16 = (b::nat)" by simp

lemma div4: "b < 4 \<Longrightarrow> (a * 4 + b) div 4 = (a::nat)" by simp

lemma mod4: "b < 4 \<Longrightarrow> (a * 4 + b) mod 4 = (b::nat)" by simp

lemma d16: "y < 256 \<Longrightarrow> y div 16 < (16::nat)" by (simp add: div_less_iff_less_mult)

lemma d64: "y < 256 \<Longrightarrow> y div 64 < (4::nat)" by (simp add: div_less_iff_less_mult)

lemma grp1: "y < 256 \<Longrightarrow> x div 4 * 4 + (x mod 4 * 16 + y div 16) div 16 = (x::nat)"
  by (simp add: div16 d16)

lemma grp2: "y < 256 \<Longrightarrow> z < 256 \<Longrightarrow> (x mod 4 * 16 + y div 16) mod 16 * 16 + (y mod 16 * 4 + z div 64) div 4 = (y::nat)"
  by (simp add: mod16 d16 div4 d64)

lemma grp3: "z < 256 \<Longrightarrow> (y mod 16 * 4 + z div 64) mod 4 * 64 + z mod 64 = (z::nat)"
  by (simp add: mod4 d64)

lemma grp2': "y < 256 \<Longrightarrow> (x mod 4 * 16 + y div 16) mod 16 * 16 + (y mod 16 * 4) div 4 = (y::nat)"
  by (simp add: mod16 d16)

lemma grp1': "x div 4 * 4 + (x mod 4 * 16) div 16 = (x::nat)"
  by simp

lemma bytes_of_sextets_of_bytes: "bytes_of_sextets (sextets_of_bytes bs) = bs"
proof (induction bs rule: sextets_of_bytes.induct)
  case (1 x y z rest)
  have "bytes_of_sextets (sextets_of_bytes (x # y # z # rest)) =
        of_nat (unat x) # of_nat (unat y) # of_nat (unat z) # bytes_of_sextets (sextets_of_bytes rest)"
    by (simp only: sextets_of_bytes.simps bytes_of_sextets.simps
          grp1 [OF byte_bound] grp2 [OF byte_bound byte_bound] grp3 [OF byte_bound])
  with 1 show ?case by simp
next
  case (2 x y)
  have "bytes_of_sextets (sextets_of_bytes [x, y]) = [of_nat (unat x), of_nat (unat y)]"
    by (simp only: sextets_of_bytes.simps bytes_of_sextets.simps
          grp1 [OF byte_bound] grp2' [OF byte_bound])
  then show ?case by simp
next
  case (3 x)
  have "bytes_of_sextets (sextets_of_bytes [x]) = [of_nat (unat x)]"
    by (simp only: sextets_of_bytes.simps bytes_of_sextets.simps grp1')
  then show ?case by simp
next
  case 4
  show ?case by simp
qed

lemma s64a: "unat (x::byte) div 4 < 64"
  using byte_bound [of x] by (simp add: div_less_iff_less_mult)

lemma s64b: "unat (x::byte) mod 4 * 16 + unat (y::byte) div 16 < 64"
proof -
  have "unat x mod 4 \<le> 3" by simp
  moreover have "unat y div 16 < 16" by (rule d16 [OF byte_bound])
  ultimately show ?thesis by linarith
qed

lemma s64c: "unat (y::byte) mod 16 * 4 + unat (z::byte) div 64 < 64"
proof -
  have "unat y mod 16 \<le> 15" by simp
  moreover have "unat z div 64 < 4" by (rule d64 [OF byte_bound])
  ultimately show ?thesis by linarith
qed

lemma s64d: "unat (x::byte) mod 4 * 16 < 64"
proof -
  have "unat x mod 4 \<le> 3" by simp
  then show ?thesis by linarith
qed

lemma s64e: "unat (y::byte) mod 16 * 4 < 64"
proof -
  have "unat y mod 16 \<le> 15" by simp
  then show ?thesis by linarith
qed

lemma sextets_of_bytes_bound: "list_all (\<lambda>v. v < 64) (sextets_of_bytes bs)"
  by (induction bs rule: sextets_of_bytes.induct) (simp_all add: s64a s64b s64c s64d s64e)

lemma sextets_encoded:
  "list_all (\<lambda>v. v < 64) vs \<Longrightarrow>
   sextets (map (\<lambda>c. if c = CHR ''_'' then CHR ''/'' else c)
              (map (\<lambda>c. if c = CHR ''-'' then CHR ''+'' else c)
                 (map (\<lambda>v. base64url_alphabet ! v) vs)) @ replicate k (CHR ''='')) = vs"
proof (induction vs)
  case Nil
  show ?case by (cases k) (simp_all add: unbase64_def)
next
  case (Cons v vs)
  then have "v < 64" by simp
  then have "unbase64 (base64url_alphabet ! v) = Some v" by (rule unbase64_alphabet)
  then have "unbase64 (if (if base64url_alphabet ! v = CHR ''-'' then CHR ''+'' else base64url_alphabet ! v) = CHR ''_'' then CHR ''/''
        else (if base64url_alphabet ! v = CHR ''-'' then CHR ''+'' else base64url_alphabet ! v)) = Some v"
    by (simp only: unbase64_replace)
  with Cons show ?case by simp
qed

lemma sextets_padded:
  assumes h: "list_all (\<lambda>v. v < 64) vs"
  shows "sextets (map (\<lambda>c. if c = CHR ''_'' then CHR ''/'' else c)
              (map (\<lambda>c. if c = CHR ''-'' then CHR ''+'' else c)
                 (map (\<lambda>v. base64url_alphabet ! v) vs @ replicate j (CHR ''=''))) @ replicate k (CHR ''='')) = vs"
proof -
  have "map (\<lambda>c. if c = CHR ''_'' then CHR ''/'' else c)
              (map (\<lambda>c. if c = CHR ''-'' then CHR ''+'' else c)
                 (map (\<lambda>v. base64url_alphabet ! v) vs @ replicate j (CHR ''=''))) @ replicate k (CHR ''='')
     = map (\<lambda>c. if c = CHR ''_'' then CHR ''/'' else c)
              (map (\<lambda>c. if c = CHR ''-'' then CHR ''+'' else c)
                 (map (\<lambda>v. base64url_alphabet ! v) vs)) @ replicate (j + k) (CHR ''='')"
    by (simp add: replicate_add)
  with sextets_encoded [OF h, of "j + k"] show ?thesis by simp
qed

lemma base64url_roundtrip: "base64urlToBuffer (base64url_encode bs) = bs"
  unfolding base64urlToBuffer_def base64url_encode_def Buffer_from_base64_def Let_def
  by (simp only: sextets_encoded [OF sextets_of_bytes_bound] bytes_of_sextets_of_bytes)

lemma base64url_padded_roundtrip: "base64urlToBuffer (base64url_encode_padded bs) = bs"
  unfolding base64urlToBuffer_def base64url_encode_padded_def base64url_encode_def Buffer_from_base64_def Let_def
  by (simp only: sextets_padded [OF sextets_of_bytes_bound] bytes_of_sextets_of_bytes)

lemma base64urlToBuffer_Nil: "base64urlToBuffer [] = []"
  by (simp add: base64urlToBuffer_def Buffer_from_base64_def)

lemma decode_encode_token:
  "base64urlToBuffer (encode_token rt secret payload_bytes) =
     payload_bytes @ 0x2E # hmac_sha256 rt secret payload_bytes"
  by (simp add: encode_token_def base64url_roundtrip)

subsection \<open>The comparison of signatures\<close>

text \<open>\<open>safeEqual\<close> decides equality of buffers; flipping one bit of a byte changes the byte.\<close>

lemma xor_zero_iff: "(x XOR y = 0) = (x = y)" for x y :: "byte"
proof
  assume "x XOR y = 0"
  then have "\<And>n. bit (x XOR y) n = bit (0 :: byte) n" by simp
  then have "\<And>n. bit x n = bit y n" by (simp add: bit_xor_iff)
  then show "x = y" by (rule bit_eqI)
next
  assume "x = y" then show "x XOR y = 0" by simp
qed

lemma foldl_or_xor:
  "length a = length b \<Longrightarrow>
   (foldl (\<lambda>acc (x, y). acc OR (x XOR y)) acc (zip a b) = (0::byte)) = (acc = 0 \<and> a = b)"
proof (induction a b arbitrary: acc rule: list_induct2)
  case Nil
  show ?case by simp
next
  case (Cons x xs y ys)
  have "(foldl (\<lambda>acc (x, y). acc OR (x XOR y)) acc (zip (x # xs) (y # ys)) = 0)
      = (foldl (\<lambda>acc (x, y). acc OR (x XOR y)) (acc OR (x XOR y)) (zip xs ys) = 0)"
    by simp
  also have "\<dots> = (acc OR (x XOR y) = 0 \<and> xs = ys)" by (rule Cons.IH)
  also have "\<dots> = (acc = 0 \<and> x # xs = y # ys)"
    by (simp only: or_eq_0_iff xor_zero_iff list.inject conj_assoc)
  finally show ?case .
qed

lemma safeEqual_iff: "safeEqual a b = (a = b)"
proof (cases "length a = length b")
  case True
  then show ?thesis by (simp add: safeEqual_def timingSafeEqual_def foldl_or_xor)
next
  case False
  then have "a \<noteq> b" by auto
  with False show ?thesis by (simp add: safeEqual_def)
qed

lemma safeEqual_bytes: "safeEqual a b = (length a = length b \<and> (\<forall>i<length a. a ! i = b ! i))"
  by (auto simp add: safeEqual_iff list_eq_iff_nth_eq)

lemma flip_bit_differs: "j < 8 \<Longrightarrow> w XOR push_bit j 1 \<noteq> (w :: byte)"
proof
  assume j: "j < 8" and eq: "w XOR push_bit j 1 = w"
  have "bit (w XOR push_bit j 1) j = (\<not> bit w j)"
    using j by (simp add: bit_simps)
  with eq show False by simp
qed

lemma list_update_differs: "i < length xs \<Longrightarrow> v \<noteq> xs ! i \<Longrightarrow> xs[i := v] \<noteq> xs"
  by (metis nth_list_update_eq)

subsection \<open>The checks of the handler\<close>

text \<open>What the split, the signature check and the payload check return, case by case.\<close>

lemma split_token_Some:
  assumes "base64urlToBuffer token = raw @ 0x2E # sig" and "length sig = 32"
  shows "split_token token = Some (raw, sig)"
  using assms by (simp add: split_token_def Let_def nth_append)

lemma split_token_parts:
  assumes "33 \<le> length (base64urlToBuffer token)"
    and "base64urlToBuffer token ! (length (base64urlToBuffer token) - 33) = 0x2E"
  shows "split_token token =
     Some (take (length (base64urlToBuffer token) - 33) (base64urlToBuffer token),
           drop (length (base64urlToBuffer token) - 32) (base64urlToBuffer token))"
  using assms by (simp add: split_token_def Let_def)

lemma verify_signed:
  assumes "base64urlToBuffer token = raw @ 0x2E # hmac_sha256 rt secret raw"
    and "length (hmac_sha256 rt secret raw) = 32"
  shows "verify rt secret now token = check_payload rt now raw"
  using split_token_Some [OF assms] by (simp add: verify_def safeEqual_iff)

lemma verify_bad_signature:
  assumes "33 \<le> length (base64urlToBuffer token)"
    and "base64urlToBuffer token ! (length (base64urlToBuffer token) - 33) = 0x2E"
    and "drop (length (base64urlToBuffer token) - 32) (base64urlToBuffer token) \<noteq>
         hmac_sha256 rt secret (take (length (base64urlToBuffer token) - 33) (base64urlToBuffer token))"
  shows "verify rt secret now token = Rejected ''signature''"
  using split_token_parts [OF assms(1,2)] assms(3) by (auto simp add: verify_def safeEqual_iff)

lemma verify_bad_token:
  assumes "length (base64urlToBuffer token) < 33 \<or>
           base64urlToBuffer token ! (length (base64urlToBuffer token) - 33) \<noteq> 0x2E"
  shows "verify rt secret now token = Rejected ''bad token''"
  using assms by (auto simp add: verify_def split_token_def Let_def)

lemma verify_flipped_bit:
  assumes len: "length (hmac_sha256 rt secret raw) = 32" and i: "i < 32" and j: "j < 8"
  shows "verify rt secret now
           (base64url_encode (raw @ [0x2E] @
              (hmac_sha256 rt secret raw)[i := hmac_sha256 rt secret raw ! i XOR push_bit j 1]))
         = Rejected ''signature''"
proof -
  let ?sig = "hmac_sha256 rt secret raw"
  let ?bad = "?sig[i := ?sig ! i XOR push_bit j 1]"
  let ?buf = "raw @ [0x2E] @ ?bad"
  have dec: "base64urlToBuffer (base64url_encode ?buf) = ?buf"
    by (rule base64url_roundtrip)
  have bad: "?bad \<noteq> ?sig"
    using len i flip_bit_differs [OF j] by (intro list_update_differs) auto
  have l: "length ?buf = length raw + 33" using len by simp
  have "verify rt secret now (base64url_encode ?buf) = Rejected ''signature''"
  proof (rule verify_bad_signature)
    show "33 \<le> length (base64urlToBuffer (base64url_encode ?buf))"
      by (simp only: dec l)
    show "base64urlToBuffer (base64url_encode ?buf) !
            (length (base64urlToBuffer (base64url_encode ?buf)) - 33) = 0x2E"
      by (simp only: dec l) (simp add: nth_append)
    show "drop (length (base64urlToBuffer (base64url_encode ?buf)) - 32)
            (base64urlToBuffer (base64url_encode ?buf)) \<noteq>
          hmac_sha256 rt secret
            (take (length (base64urlToBuffer (base64url_encode ?buf)) - 33)
               (base64urlToBuffer (base64url_encode ?buf)))"
      using bad by (simp only: dec l) simp
  qed
  then show ?thesis .
qed

lemma check_payload_fields:
  assumes "JSON_parse_utf8 rt raw = Some p"
    and "get_property p ''email'' = Inr em"
    and "get_property p ''exp'' = Inr ex"
  shows "check_payload rt now raw =
     (if \<not> truthy em \<or> \<not> truthy ex then Rejected ''payload''
      else
        (case ToNumber rt ex of
           Inl e \<Rightarrow> Thrown e
         | Inr n \<Rightarrow>
             if js_gt (Finite now) n then Rejected ''expired''
             else
               (case String_of rt em of
                  Inl e \<Rightarrow> Thrown e
                | Inr s \<Rightarrow> Verified (toLowerCase (trim s)))))"
  using assms by (simp add: check_payload_def)

lemma get_property_defined: "(q \<noteq> JNull) = (\<exists>v. get_property q k = Inr v)"
  by (cases q) simp_all

lemma falsy_values:
  "(\<not> truthy v) =
     (v \<in> {None, Some JNull, Some (JBool False), Some (JNum NaN), Some (JNum (Finite 0)),
            Some (JStr [])})"
  by (cases v rule: truthy.cases) auto

text \<open>A payload that parses to \<^verbatim>\<open>null\<close> makes line 121 throw: no check answers.\<close>

lemma null_payload_throws:
  assumes "base64urlToBuffer token = raw @ 0x2E # hmac_sha256 rt secret raw"
    and "length (hmac_sha256 rt secret raw) = 32"
    and "JSON_parse_utf8 rt raw = Some JNull"
  shows "verify rt secret now token = Thrown TypeError"
  using verify_signed [OF assms(1,2)] assms(3) by (simp add: check_payload_def)

subsection \<open>The answers of the handler\<close>

lemma handler_rejected:
  assumes "http_method req = ''GET'' \<or> http_method req = ''POST''"
    and "first_token (query_token req) = Some tok" and "tok \<noteq> []"
    and "verify rt (UNSUB_SECRET env) now tok = Rejected tag"
  shows "handler rt env now pool req =
     \<lparr>res = send (status (setHeader res0 ''Cache-Control'' ''no-store, max-age=0'') 400) (Text tag),
      pool_after = pool, console_error = [], thrown = None\<rparr>"
  using assms by (auto simp add: handler_def Let_def)

lemma handler_verified:
  assumes "http_method req = ''GET'' \<or> http_method req = ''POST''"
    and "first_token (query_token req) = Some tok" and "tok \<noteq> []"
    and "verify rt (UNSUB_SECRET env) now tok = Verified email"
  shows "pool_after (handler rt env now pool req) =
           snd (saveSuppression pool email
                  (if http_method req = ''POST'' then ''one-click'' else ''web''))"
    and "console_error (handler rt env now pool req) =
           (case fst (saveSuppression pool email
                        (if http_method req = ''POST'' then ''one-click'' else ''web'')) of
              None \<Rightarrow> [] | Some e \<Rightarrow> [''suppression save failed:''])"
  using assms
  by (auto simp add: handler_def Let_def split: prod.splits option.splits)

lemma handler_verified_post:
  assumes "http_method req = ''POST''"
    and "first_token (query_token req) = Some tok" and "tok \<noteq> []"
    and "verify rt (UNSUB_SECRET env) now tok = Verified email"
  shows "res (handler rt env now pool req) =
           send (status (setHeader res0 ''Cache-Control'' ''no-store, max-age=0'') 204) (Text [])"
    and "thrown (handler rt env now pool req) = None"
  using assms
  by (auto simp add: handler_def Let_def split: prod.splits option.splits)

lemma handler_verified_page:
  assumes "http_method req = ''GET''" and "VISIBLE_UNSUB_REDIRECT env = []"
    and "first_token (query_token req) = Some tok" and "tok \<noteq> []"
    and "verify rt (UNSUB_SECRET env) now tok = Verified email"
  shows "res (handler rt env now pool req) =
           send (status (setHeader (setHeader res0 ''Cache-Control'' ''no-store, max-age=0'')
                           ''Content-Type'' ''text/html; charset=utf-8'') 200)
             (ConfirmationPage (esc (maskEmail email)))"
    and "thrown (handler rt env now pool req) = None"
  using assms
  by (auto simp add: handler_def Let_def split: prod.splits option.splits)

lemma handler_verified_redirect:
  assumes "http_method req = ''GET''" and "VISIBLE_UNSUB_REDIRECT env \<noteq> []"
    and "URL_with_search rt (VISIBLE_UNSUB_REDIRECT env)
           [(''status'', ''success''), (''email'', maskEmail email)] = Some location"
    and "first_token (query_token req) = Some tok" and "tok \<noteq> []"
    and "verify rt (UNSUB_SECRET env) now tok = Verified email"
  shows "res (handler rt env now pool req) =
           send (status (setHeader (setHeader res0 ''Cache-Control'' ''no-store, max-age=0'')
                           ''Location'' location) 302) (Text [])"
    and "thrown (handler rt env now pool req) = None"
  using assms
  by (auto simp add: handler_def Let_def split: prod.splits option.splits)

subsection \<open>The suppression table\<close>

text \<open>
  The insert with conflict resolution keeps the keys distinct, leaves one row with the
  key of the new row, equal to the new row, and does not touch the other rows.
\<close>

lemma upsert_keys:
  "map col_email (upsert rows r) =
     (if col_email r \<in> set (map col_email rows) then map col_email rows
      else map col_email rows @ [col_email r])"
  by (induction rows) auto

lemma upsert_distinct:
  "distinct (map col_email rows) \<Longrightarrow> distinct (map col_email (upsert rows r))"
  by (simp add: upsert_keys)

lemma upsert_same_key:
  "distinct (map col_email rows) \<Longrightarrow>
   filter (\<lambda>x. col_email x = col_email r) (upsert rows r) = [r]"
proof (induction rows)
  case Nil
  show ?case by simp
next
  case (Cons x xs)
  show ?case
  proof (cases "col_email x = col_email r")
    case True
    with Cons.prems have "filter (\<lambda>y. col_email y = col_email r) xs = []"
      by (auto simp add: filter_empty_conv image_iff)
    with True show ?thesis by simp
  next
    case False
    with Cons show ?thesis by simp
  qed
qed

lemma upsert_other_keys:
  "filter (\<lambda>x. col_email x \<noteq> col_email r) (upsert rows r) =
   filter (\<lambda>x. col_email x \<noteq> col_email r) rows"
  by (induction rows) auto

lemma saveSuppression_healthy:
  assumes "\<forall>st. \<not> rejects db st"
  shows "saveSuppression (Some db) email source =
     (None, Some (db\<lparr>received := received db @
                        [CREATE_TABLE_IF_NOT_EXISTS, INSERT_ON_CONFLICT_DO_UPDATE email source],
                    suppression := Some (upsert (table db)
                        \<lparr>col_email = email, col_source = source,
                         col_reason = ''user-request'', col_ts = db_now db\<rparr>)\<rparr>))"
  using assms by (cases "suppression db") (simp_all add: saveSuppression_def pool_query_def table_def)

lemma saveSuppression_rejected:
  assumes "rejects db CREATE_TABLE_IF_NOT_EXISTS
           \<or> rejects db (INSERT_ON_CONFLICT_DO_UPDATE email source)"
  shows "fst (saveSuppression (Some db) email source) = Some QueryError"
proof (cases "rejects db CREATE_TABLE_IF_NOT_EXISTS")
  case True
  then show ?thesis by (simp add: saveSuppression_def pool_query_def)
next
  case False
  with assms have "rejects db (INSERT_ON_CONFLICT_DO_UPDATE email source)" by simp
  with False show ?thesis
    by (cases "suppression db") (simp_all add: saveSuppression_def pool_query_def)
qed

lemma save_all_healthy:
  assumes "\<forall>st. \<not> rejects db st" and "distinct (map col_email (table db))"
  shows "case save_all db email calls of
           (errors, db') \<Rightarrow>
             errors = replicate (length calls) None
             \<and> (\<forall>st. \<not> rejects db' st)
             \<and> distinct (map col_email (table db'))
             \<and> filter (\<lambda>r. col_email r \<noteq> email) (table db') =
                 filter (\<lambda>r. col_email r \<noteq> email) (table db)
             \<and> received db' = received db @
                 concat (map (\<lambda>c. [CREATE_TABLE_IF_NOT_EXISTS,
                                    INSERT_ON_CONFLICT_DO_UPDATE email (fst c)]) calls)
             \<and> (calls \<noteq> [] \<longrightarrow>
                   suppression db' \<noteq> None
                   \<and> filter (\<lambda>r. col_email r = email) (table db') =
                       [\<lparr>col_email = email, col_source = fst (last calls),
                         col_reason = ''user-request'', col_ts = snd (last calls)\<rparr>])"
  using assms
proof (induction calls arbitrary: db)
  case Nil
  then show ?case by simp
next
  case (Cons c calls)
  obtain source t where c: "c = (source, t)" by (cases c)
  define r where "r = \<lparr>col_email = email, col_source = source,
                         col_reason = ''user-request'', col_ts = t\<rparr>"
  define db1 where "db1 = db\<lparr>db_now := t,
      received := received db @
         [CREATE_TABLE_IF_NOT_EXISTS, INSERT_ON_CONFLICT_DO_UPDATE email source],
      suppression := Some (upsert (table db) r)\<rparr>"
  have h0: "\<forall>st. \<not> rejects (db\<lparr>db_now := t\<rparr>) st" using Cons.prems(1) by simp
  have step: "saveSuppression (Some (db\<lparr>db_now := t\<rparr>)) email source = (None, Some db1)"
    using saveSuppression_healthy [OF h0, of email source]
    by (simp add: db1_def r_def table_def)
  have t1: "table db1 = upsert (table db) r" by (simp add: table_def db1_def)
  have key: "col_email r = email" by (simp add: r_def)
  have h1: "\<forall>st. \<not> rejects db1 st" using Cons.prems(1) by (simp add: db1_def)
  have d1: "distinct (map col_email (table db1))"
    using Cons.prems(2) by (simp only: t1 upsert_distinct)
  have same: "filter (\<lambda>x. col_email x = email) (table db1) = [r]"
    using upsert_same_key [OF Cons.prems(2), of r] by (simp only: t1 key)
  have other: "filter (\<lambda>x. col_email x \<noteq> email) (table db1) =
               filter (\<lambda>x. col_email x \<noteq> email) (table db)"
    using upsert_other_keys [of r "table db"] by (simp only: t1 key)
  have rec1: "received db1 = received db @
         [CREATE_TABLE_IF_NOT_EXISTS, INSERT_ON_CONFLICT_DO_UPDATE email source]"
    by (simp add: db1_def)
  have sup1: "suppression db1 \<noteq> None" by (simp add: db1_def)
  obtain errors db2 where rest: "save_all db1 email calls = (errors, db2)"
    by (cases "save_all db1 email calls")
  from Cons.IH [OF h1 d1] rest
  have ih: "errors = replicate (length calls) None"
    "\<forall>st. \<not> rejects db2 st"
    "distinct (map col_email (table db2))"
    "filter (\<lambda>r. col_email r \<noteq> email) (table db2) =
       filter (\<lambda>r. col_email r \<noteq> email) (table db1)"
    "received db2 = received db1 @
       concat (map (\<lambda>c. [CREATE_TABLE_IF_NOT_EXISTS,
                          INSERT_ON_CONFLICT_DO_UPDATE email (fst c)]) calls)"
    "calls \<noteq> [] \<longrightarrow>
       suppression db2 \<noteq> None
       \<and> filter (\<lambda>r. col_email r = email) (table db2) =
           [\<lparr>col_email = email, col_source = fst (last calls),
             col_reason = ''user-request'', col_ts = snd (last calls)\<rparr>]"
    by simp_all
  have all: "save_all db email (c # calls) = (None # errors, db2)"
    by (simp add: c step rest)
  have nil: "calls = [] \<Longrightarrow> db2 = db1" using rest by simp
  show ?case
  proof (cases "calls = []")
    case True
    with nil have "db2 = db1" by simp
    with True all ih same other rec1 sup1 show ?thesis
      by (simp add: c r_def)
  next
    case False
    with all ih other rec1 show ?thesis
      by (simp add: c)
  qed
qed

subsection \<open>Masking and the examples\<close>

lemma split_no_sep: "sep \<notin> set s \<Longrightarrow> split sep s = [s]"
  by (induction s) auto

lemma split_append_sep:
  "sep \<notin> set a \<Longrightarrow> split sep (a @ sep # b) = a # split sep b"
  by (induction a) auto

lemma replicate_num: "replicate (numeral k) x = x # replicate (pred_numeral k) x"
  by (simp add: numeral_eq_Suc)

text \<open>The digest has 32 bytes; the test vector of FIPS 180-4 for the message \<open>abc\<close>.\<close>

lemma sha256_length: "length (sha256 msg) = 32"
  by (simp add: sha256_def bytes_of_word32_def Let_def split: prod.splits)

lemma HMAC_SHA256_length: "length (HMAC_SHA256 key data) = 32"
  by (simp add: HMAC_SHA256_def Let_def sha256_length)

lemma sha256_abc:
  "sha256 (utf8 ''abc'') =
     [0xBA, 0x78, 0x16, 0xBF, 0x8F, 0x01, 0xCF, 0xEA, 0x41, 0x41, 0x40, 0xDE, 0x5D, 0xAE, 0x22, 0x23,
      0xB0, 0x03, 0x61, 0xA3, 0x96, 0x17, 0x7A, 0x9C, 0xB4, 0x10, 0xFF, 0x61, 0xF2, 0x00, 0x15, 0xAD]"
  by code_simp

lemma example_digest_length: "length (hmac_sha256 example_rt key data) = 32"
  by (simp add: example_rt_def HMAC_SHA256_length)

lemma example_normalised:
  "toLowerCase (trim ''Jane.Doe@Example.com '') = ''jane.doe@example.com''"
  "toLowerCase (trim ''a@b.c'') = ''a@b.c''"
  by (simp_all add: toLowerCase_def trim_def is_space_def lower_char_def upper_chars_def
        lower_chars_def)

lemma example_jane_verified:
  "verify example_rt ''s3cret'' 1700000000
     (encode_token example_rt ''s3cret'' (utf8 ''{\"email\":\"Jane.Doe@Example.com \",\"exp\":4102444800}''))
   = Verified ''jane.doe@example.com''"
proof -
  have parse: "JSON_parse_utf8 example_rt (utf8 ''{\"email\":\"Jane.Doe@Example.com \",\"exp\":4102444800}'') =
      Some (JObj [(''email'', JStr ''Jane.Doe@Example.com ''), (''exp'', JNum (Finite 4102444800))])"
    by (simp add: example_rt_def example_parse_def)
  have "check_payload example_rt 1700000000 (utf8 ''{\"email\":\"Jane.Doe@Example.com \",\"exp\":4102444800}'') = Verified ''jane.doe@example.com''"
    by (simp add: check_payload_def parse String_of_def example_normalised)
  with verify_signed [OF decode_encode_token [of example_rt "''s3cret''" "utf8 ''{\"email\":\"Jane.Doe@Example.com \",\"exp\":4102444800}''"]
         example_digest_length, where now = 1700000000]
  show ?thesis by simp
qed

section \<open>The claims\<close>

text \<open>
  Claim C1. Let the payload parse to an object whose \<open>email\<close> is a string that is not
  empty and whose \<open>exp\<close> is a number other than 0, and let the digest have 32 bytes.
  The token built from the payload and its signature, with or without padding,
  verifies with the same secret at every time up to \<open>exp\<close>, and the result is the
  address trimmed and in lower case. The address \<open>Jane.Doe@Example.com\<close> followed by a
  space is normalised to \<open>jane.doe@example.com\<close>.
\<close>

theorem roundtrip_normalized_email:
  assumes "JSON_parse_utf8 rt payload_bytes = Some (JObj kvs)"
    and "map_of kvs ''email'' = Some (JStr e)" and "e \<noteq> []"
    and "map_of kvs ''exp'' = Some (JNum (Finite x))" and "x \<noteq> 0" and "now \<le> x"
    and "length (hmac_sha256 rt secret payload_bytes) = 32"
  shows "verify rt secret now (encode_token rt secret payload_bytes) = Verified (toLowerCase (trim e))
    \<and> verify rt secret now
         (base64url_encode_padded (payload_bytes @ [0x2E] @ hmac_sha256 rt secret payload_bytes))
        = Verified (toLowerCase (trim e))
    \<and> toLowerCase (trim ''Jane.Doe@Example.com '') = ''jane.doe@example.com''"
proof (intro conjI)
  have fields: "check_payload rt now payload_bytes = Verified (toLowerCase (trim e))"
    using assms(1-6) by (simp add: check_payload_def String_of_def)
  have "base64urlToBuffer (encode_token rt secret payload_bytes) =
        payload_bytes @ 0x2E # hmac_sha256 rt secret payload_bytes"
    by (simp add: encode_token_def base64url_roundtrip)
  from verify_signed [OF this assms(7)] fields
  show "verify rt secret now (encode_token rt secret payload_bytes) = Verified (toLowerCase (trim e))"
    by simp
  have "base64urlToBuffer
          (base64url_encode_padded (payload_bytes @ [0x2E] @ hmac_sha256 rt secret payload_bytes)) =
        payload_bytes @ 0x2E # hmac_sha256 rt secret payload_bytes"
    by (simp add: base64url_padded_roundtrip)
  from verify_signed [OF this assms(7)] fields
  show "verify rt secret now
         (base64url_encode_padded (payload_bytes @ [0x2E] @ hmac_sha256 rt secret payload_bytes))
        = Verified (toLowerCase (trim e))"
    by simp
  show "toLowerCase (trim ''Jane.Doe@Example.com '') = ''jane.doe@example.com''"
    by (simp add: toLowerCase_def trim_def is_space_def lower_char_def upper_chars_def lower_chars_def)
qed

text \<open>The scenario of the specification: the secret \<open>s3cret\<close> and an expiry in the year 2100.\<close>

theorem roundtrip_normalized_email_witness:
  "verify example_rt ''s3cret'' 1700000000
     (encode_token example_rt ''s3cret'' (utf8 ''{\"email\":\"Jane.Doe@Example.com \",\"exp\":4102444800}''))
   = Verified ''jane.doe@example.com''"
proof -
  have parse: "JSON_parse_utf8 example_rt (utf8 ''{\"email\":\"Jane.Doe@Example.com \",\"exp\":4102444800}'') =
      Some (JObj [(''email'', JStr ''Jane.Doe@Example.com ''), (''exp'', JNum (Finite 4102444800))])"
    by (simp add: example_rt_def example_parse_def)
  from roundtrip_normalized_email [OF parse _ _ _ _ _ example_digest_length,
         of "''Jane.Doe@Example.com ''" 4102444800 1700000000]
  show ?thesis by simp
qed

text \<open>
  Claim C2. Let the decoded token have at least 33 bytes and the separator in place. If
  its last 32 bytes differ from the digest of the bytes before the separator, the
  checks end in \<open>signature\<close>, whatever the parser of the payload would return, and the
  handler answers 400 with that tag. The comparison holds exactly when the lengths
  are equal and all bytes agree. In particular a token whose signature has one bit
  flipped, at any of the 32 bytes and any of the 8 bits, ends in \<open>signature\<close>.
\<close>

theorem signature_gate:
  assumes "base64urlToBuffer token = buf"
    and "33 \<le> length buf"
    and "buf ! (length buf - 33) = 0x2E"
    and "drop (length buf - 32) buf \<noteq> hmac_sha256 rt secret (take (length buf - 33) buf)"
  shows "verify (rt\<lparr>JSON_parse_utf8 := parse\<rparr>) secret now token = Rejected ''signature''
    \<and> ((http_method req = ''GET'' \<or> http_method req = ''POST'')
         \<and> first_token (query_token req) = Some token \<and> UNSUB_SECRET env = secret \<longrightarrow>
         res (handler (rt\<lparr>JSON_parse_utf8 := parse\<rparr>) env now pool req) =
           send (status (setHeader res0 ''Cache-Control'' ''no-store, max-age=0'') 400)
             (Text ''signature''))
    \<and> safeEqual a b = (length a = length b \<and> (\<forall>i<length a. a ! i = b ! i))
    \<and> (\<forall>i<32. \<forall>j<8. length (hmac_sha256 rt secret raw) = 32 \<longrightarrow>
          verify rt secret now
            (base64url_encode (raw @ [0x2E] @
               (hmac_sha256 rt secret raw)[i := hmac_sha256 rt secret raw ! i XOR push_bit j 1]))
          = Rejected ''signature'')"
proof (intro conjI impI allI)
  have v: "verify (rt\<lparr>JSON_parse_utf8 := parse\<rparr>) secret now token = Rejected ''signature''"
    using assms by (intro verify_bad_signature) simp_all
  then show "verify (rt\<lparr>JSON_parse_utf8 := parse\<rparr>) secret now token = Rejected ''signature''" .
  have ne: "token \<noteq> []"
    using assms(1,2) base64urlToBuffer_Nil by auto
  show "res (handler (rt\<lparr>JSON_parse_utf8 := parse\<rparr>) env now pool req) =
           send (status (setHeader res0 ''Cache-Control'' ''no-store, max-age=0'') 400)
             (Text ''signature'')"
    if h: "(http_method req = ''GET'' \<or> http_method req = ''POST'')
         \<and> first_token (query_token req) = Some token \<and> UNSUB_SECRET env = secret"
  proof -
    from h v have "verify (rt\<lparr>JSON_parse_utf8 := parse\<rparr>) (UNSUB_SECRET env) now token
        = Rejected ''signature''" by simp
    from handler_rejected [OF _ _ ne this, of req pool] h show ?thesis by simp
  qed
  show "safeEqual a b = (length a = length b \<and> (\<forall>i<length a. a ! i = b ! i))"
    by (rule safeEqual_bytes)
  show "verify rt secret now
            (base64url_encode (raw @ [0x2E] @
               (hmac_sha256 rt secret raw)[i := hmac_sha256 rt secret raw ! i XOR push_bit j 1]))
          = Rejected ''signature''"
    if "i < 32" "j < 8" "length (hmac_sha256 rt secret raw) = 32" for i j
    using that by (intro verify_flipped_bit)
qed

theorem signature_gate_witness:
  "verify example_rt ''s3cret'' 0
     (base64url_encode (utf8 ''x'' @ [0x2E] @
        (hmac_sha256 example_rt ''s3cret'' (utf8 ''x''))
          [0 := hmac_sha256 example_rt ''s3cret'' (utf8 ''x'') ! 0 XOR push_bit 0 1]))
   = Rejected ''signature''"
proof -
  let ?sig = "hmac_sha256 example_rt ''s3cret'' (utf8 ''x'')"
  let ?bad = "?sig[0 := ?sig ! 0 XOR push_bit 0 1]"
  let ?buf = "utf8 ''x'' @ [0x2E] @ ?bad"
  have len: "length ?sig = 32" by (rule example_digest_length)
  have x: "utf8 ''x'' = [0x78]" by (simp add: utf8_def)
  have dec: "base64urlToBuffer (base64url_encode ?buf) = ?buf"
    by (rule base64url_roundtrip)
  have bad: "?bad \<noteq> ?sig"
    using len flip_bit_differs [of 0 "?sig ! 0"] by (intro list_update_differs) auto
  have a: "33 \<le> length ?buf" using len by (simp add: x)
  have b: "?buf ! (length ?buf - 33) = 0x2E" using len by (simp add: x)
  have c: "drop (length ?buf - 32) ?buf \<noteq>
           hmac_sha256 example_rt ''s3cret'' (take (length ?buf - 33) ?buf)"
    using len bad by (simp add: x)
  have same: "example_rt\<lparr>JSON_parse_utf8 := example_parse\<rparr> = example_rt"
    by (simp add: example_rt_def)
  from signature_gate [OF dec a b c, where parse = example_parse and now = 0, THEN conjunct1]
  show ?thesis by (simp only: same)
qed

text \<open>
  Claim C3. Let the token carry a valid signature, and let its payload parse to a value
  whose \<open>email\<close> and \<open>exp\<close> pass the check of line 121 and whose \<open>exp\<close> converts to the
  finite number \<open>x\<close> (a numeric \<open>exp\<close> is its own conversion). The checks end in
  \<open>expired\<close> exactly when \<open>now\<close> is greater than \<open>x\<close>; otherwise they end in the
  normalised address, \<open>s\<close> being the string of \<open>email\<close> (an \<open>email\<close> that is a string is
  its own string). At \<open>now = x\<close> the token verifies, at \<open>now = x + 1\<close> it has expired.
\<close>

theorem expiry_boundary:
  assumes "base64urlToBuffer token = raw @ 0x2E # hmac_sha256 rt secret raw"
    and "length (hmac_sha256 rt secret raw) = 32"
    and "JSON_parse_utf8 rt raw = Some p"
    and "get_property p ''email'' = Inr em" and "get_property p ''exp'' = Inr ex"
    and "truthy em" and "truthy ex"
    and "ToNumber rt ex = Inr (Finite x)"
    and "String_of rt em = Inr s"
  shows "(verify rt secret now token = Rejected ''expired'') = (x < now)
    \<and> (verify rt secret now token = Verified (toLowerCase (trim s))) = (now \<le> x)
    \<and> verify rt secret x token = Verified (toLowerCase (trim s))
    \<and> verify rt secret (x + 1) token = Rejected ''expired''
    \<and> ToNumber rt (Some (JNum (Finite x))) = Inr (Finite x)
    \<and> String_of rt (Some (JStr s)) = Inr s"
proof -
  have "verify rt secret t token =
           (if x < t then Rejected ''expired'' else Verified (toLowerCase (trim s)))" for t
    using verify_signed [OF assms(1,2)] check_payload_fields [OF assms(3,4,5)] assms(6,7,8,9)
    by simp
  then show ?thesis by (auto simp add: String_of_def)
qed

theorem expiry_boundary_witness:
  "verify example_rt ''s3cret'' 100
     (encode_token example_rt ''s3cret'' (utf8 ''{\"email\":\"a@b.c\",\"exp\":100}'')) = Verified ''a@b.c''
   \<and> verify example_rt ''s3cret'' 101
     (encode_token example_rt ''s3cret'' (utf8 ''{\"email\":\"a@b.c\",\"exp\":100}'')) = Rejected ''expired''"
proof -
  have parse: "JSON_parse_utf8 example_rt (utf8 ''{\"email\":\"a@b.c\",\"exp\":100}'') =
      Some (JObj [(''email'', JStr ''a@b.c''), (''exp'', JNum (Finite 100))])"
    by (simp add: example_rt_def example_parse_def utf8_def)
  have em: "get_property (JObj [(''email'', JStr ''a@b.c''), (''exp'', JNum (Finite 100))]) ''email''
      = Inr (Some (JStr ''a@b.c''))" by simp
  have ex: "get_property (JObj [(''email'', JStr ''a@b.c''), (''exp'', JNum (Finite 100))]) ''exp''
      = Inr (Some (JNum (Finite 100)))" by simp
  from expiry_boundary [OF decode_encode_token [of example_rt "''s3cret''" "utf8 ''{\"email\":\"a@b.c\",\"exp\":100}''"]
         example_digest_length parse em ex, where x = 100 and s = "''a@b.c''" and now = 100]
  show ?thesis by (simp add: String_of_def example_normalised)
qed

text \<open>
  Claim C4. Let the token carry a valid signature, and let its payload parse to a value
  whose \<open>email\<close> and \<open>exp\<close> are truthy, whose \<open>exp\<close> converts to NaN and whose \<open>email\<close>
  has the string \<open>s\<close>. The comparison of line 124 is false at every time \<open>now\<close>, the
  checks end in the normalised address, and the handler passes that address to the
  store operation; on a database that accepts its statements the table then holds one
  row for the address.
\<close>

theorem non_numeric_expiry:
  assumes "base64urlToBuffer token = raw @ 0x2E # hmac_sha256 rt secret raw"
    and "length (hmac_sha256 rt secret raw) = 32"
    and "JSON_parse_utf8 rt raw = Some p"
    and "get_property p ''email'' = Inr em" and "get_property p ''exp'' = Inr ex"
    and "truthy em" and "truthy ex"
    and "ToNumber rt ex = Inr NaN"
    and "String_of rt em = Inr s"
  shows "js_gt (Finite now) NaN = False
    \<and> verify rt secret now token = Verified (toLowerCase (trim s))
    \<and> ((http_method req = ''GET'' \<or> http_method req = ''POST'')
         \<and> first_token (query_token req) = Some token \<and> UNSUB_SECRET env = secret \<longrightarrow>
           pool_after (handler rt env now pool req) =
             snd (saveSuppression pool (toLowerCase (trim s))
                    (if http_method req = ''POST'' then ''one-click'' else ''web'')))
    \<and> ((http_method req = ''GET'' \<or> http_method req = ''POST'')
         \<and> first_token (query_token req) = Some token \<and> UNSUB_SECRET env = secret
         \<and> (\<forall>st. \<not> rejects db st) \<and> distinct (map col_email (table db)) \<longrightarrow>
           (\<exists>db'. pool_after (handler rt env now (Some db) req) = Some db'
              \<and> filter (\<lambda>r. col_email r = toLowerCase (trim s)) (table db') =
                  [\<lparr>col_email = toLowerCase (trim s),
                    col_source = (if http_method req = ''POST'' then ''one-click'' else ''web''),
                    col_reason = ''user-request'', col_ts = db_now db\<rparr>]))"
proof (intro conjI impI)
  let ?email = "toLowerCase (trim s)"
  show c: "js_gt (Finite now) NaN = False"
    by simp
  show v: "verify rt secret now token = Verified ?email"
    using verify_signed [OF assms(1,2)] check_payload_fields [OF assms(3,4,5)] assms(6,7,8,9)
    by simp
  have ne: "token \<noteq> []"
    using assms(1) base64urlToBuffer_Nil by auto
  show "pool_after (handler rt env now pool req) =
             snd (saveSuppression pool ?email
                    (if http_method req = ''POST'' then ''one-click'' else ''web''))"
    if h: "(http_method req = ''GET'' \<or> http_method req = ''POST'')
         \<and> first_token (query_token req) = Some token \<and> UNSUB_SECRET env = secret"
  proof -
    from h v have "verify rt (UNSUB_SECRET env) now token = Verified ?email" by simp
    from handler_verified(1) [OF _ _ ne this, of req pool] h show ?thesis by simp
  qed
  show "\<exists>db'. pool_after (handler rt env now (Some db) req) = Some db'
              \<and> filter (\<lambda>r. col_email r = ?email) (table db') =
                  [\<lparr>col_email = ?email,
                    col_source = (if http_method req = ''POST'' then ''one-click'' else ''web''),
                    col_reason = ''user-request'', col_ts = db_now db\<rparr>]"
    if h: "(http_method req = ''GET'' \<or> http_method req = ''POST'')
         \<and> first_token (query_token req) = Some token \<and> UNSUB_SECRET env = secret
         \<and> (\<forall>st. \<not> rejects db st) \<and> distinct (map col_email (table db))"
  proof -
    let ?src = "if http_method req = ''POST'' then ''one-click'' else ''web''"
    let ?row = "\<lparr>col_email = ?email, col_source = ?src,
                  col_reason = ''user-request'', col_ts = db_now db\<rparr>"
    from h v have "verify rt (UNSUB_SECRET env) now token = Verified ?email" by simp
    from handler_verified(1) [OF _ _ ne this, of req "Some db"] h
    have p: "pool_after (handler rt env now (Some db) req) =
               snd (saveSuppression (Some db) ?email ?src)" by simp
    from h have healthy: "\<forall>st. \<not> rejects db st" and d: "distinct (map col_email (table db))"
      by simp_all
    have "filter (\<lambda>r. col_email r = ?email) (upsert (table db) ?row) = [?row]"
      using upsert_same_key [OF d, of ?row] by simp
    with p saveSuppression_healthy [OF healthy, of ?email ?src]
    show ?thesis by (simp add: table_def)
  qed
qed

theorem non_numeric_expiry_witness:
  "verify example_rt ''s3cret'' 99999999999
     (encode_token example_rt ''s3cret'' (utf8 ''{\"email\":\"a@b.c\",\"exp\":\"never\"}'')) = Verified ''a@b.c''"
proof -
  have parse: "JSON_parse_utf8 example_rt (utf8 ''{\"email\":\"a@b.c\",\"exp\":\"never\"}'') =
      Some (JObj [(''email'', JStr ''a@b.c''), (''exp'', JStr ''never'')])"
    by (simp add: example_rt_def example_parse_def utf8_def)
  have em: "get_property (JObj [(''email'', JStr ''a@b.c''), (''exp'', JStr ''never'')]) ''email''
      = Inr (Some (JStr ''a@b.c''))" by simp
  have ex: "get_property (JObj [(''email'', JStr ''a@b.c''), (''exp'', JStr ''never'')]) ''exp''
      = Inr (Some (JStr ''never''))" by simp
  have nan: "ToNumber example_rt (Some (JStr ''never'')) = Inr NaN"
    by (simp add: example_rt_def)
  have str: "String_of example_rt (Some (JStr ''a@b.c'')) = Inr ''a@b.c''"
    by (simp add: String_of_def)
  from non_numeric_expiry [OF decode_encode_token [of example_rt "''s3cret''" "utf8 ''{\"email\":\"a@b.c\",\"exp\":\"never\"}''"]
         example_digest_length parse em ex _ _ nan str, where now = 99999999999]
  show ?thesis by (simp add: example_normalised)
qed

text \<open>
  Claim C5. A token whose decoded bytes are fewer than 33, or whose byte before the
  last 32 is not 0x2E, ends in \<open>bad token\<close>, and the handler answers 400 with that
  tag. This holds for every secret and runtime, so also when the last 32 bytes are the
  digest of the bytes before the separator position: a token built with another
  separator byte is rejected, and so is every encoding of fewer than 33 bytes.
\<close>

theorem malformed_token:
  assumes "base64urlToBuffer token = buf"
    and "length buf < 33 \<or> (33 \<le> length buf \<and> buf ! (length buf - 33) \<noteq> 0x2E)"
  shows "verify rt secret now token = Rejected ''bad token''
    \<and> ((http_method req = ''GET'' \<or> http_method req = ''POST'')
         \<and> first_token (query_token req) = Some token \<and> token \<noteq> [] \<longrightarrow>
         res (handler rt env now pool req) =
           send (status (setHeader res0 ''Cache-Control'' ''no-store, max-age=0'') 400)
             (Text ''bad token''))
    \<and> (sep \<noteq> 0x2E \<and> length (hmac_sha256 rt secret raw) = 32 \<longrightarrow>
         verify rt secret now (base64url_encode (raw @ [sep] @ hmac_sha256 rt secret raw))
           = Rejected ''bad token'')
    \<and> (length bs < 33 \<longrightarrow> verify rt secret now (base64url_encode bs) = Rejected ''bad token'')"
proof (intro conjI impI)
  have v: "verify rt secret now token = Rejected ''bad token''" for rt secret now
    using assms by (intro verify_bad_token) auto
  show "verify rt secret now token = Rejected ''bad token''" by (rule v)
  show "res (handler rt env now pool req) =
           send (status (setHeader res0 ''Cache-Control'' ''no-store, max-age=0'') 400)
             (Text ''bad token'')"
    if h: "(http_method req = ''GET'' \<or> http_method req = ''POST'')
         \<and> first_token (query_token req) = Some token \<and> token \<noteq> []"
    using handler_rejected [OF _ _ _ v, where req = req and env = env and pool = pool] h by simp
  show "verify rt secret now (base64url_encode (raw @ [sep] @ hmac_sha256 rt secret raw))
           = Rejected ''bad token''"
    if "sep \<noteq> 0x2E \<and> length (hmac_sha256 rt secret raw) = 32"
    using that by (intro verify_bad_token) (simp add: base64url_roundtrip nth_append)
  show "verify rt secret now (base64url_encode bs) = Rejected ''bad token''"
    if "length bs < 33"
    using that by (intro verify_bad_token) (simp add: base64url_roundtrip)
qed

theorem malformed_token_witness:
  "verify example_rt ''s3cret'' 0 ''abcd'' = Rejected ''bad token''
   \<and> verify example_rt ''s3cret'' 0
       (base64url_encode (utf8 ''x'' @ [0x2F] @ hmac_sha256 example_rt ''s3cret'' (utf8 ''x'')))
     = Rejected ''bad token''"
proof -
  have d: "base64urlToBuffer ''abcd'' = [0x69, 0xB7, 0x1D]"
    by (simp add: base64urlToBuffer_def Buffer_from_base64_def unbase64_def)
  from malformed_token [OF d, where rt = example_rt and secret = "''s3cret''" and now = 0
         and sep = "0x2F" and raw = "utf8 ''x''"]
  show ?thesis by (simp add: example_digest_length)
qed

text \<open>
  Claim C6, as the specification states it, fails: the payload
  \<^verbatim>\<open>{"email":"a@b.c","exp":0}\<close> has both fields, neither empty nor null, and the token
  that carries it with a valid signature ends in \<open>payload\<close>, not in the expiry check.
\<close>

theorem required_fields_counterexample:
  "JSON_parse_utf8 example_rt (utf8 ''{\"email\":\"a@b.c\",\"exp\":0}'') =
     Some (JObj [(''email'', JStr ''a@b.c''), (''exp'', JNum (Finite 0))])
   \<and> verify example_rt ''s3cret'' 1 (encode_token example_rt ''s3cret'' (utf8 ''{\"email\":\"a@b.c\",\"exp\":0}''))
     = Rejected ''payload''"
proof -
  have parse: "JSON_parse_utf8 example_rt (utf8 ''{\"email\":\"a@b.c\",\"exp\":0}'') =
      Some (JObj [(''email'', JStr ''a@b.c''), (''exp'', JNum (Finite 0))])"
    by (simp add: example_rt_def example_parse_def utf8_def)
  have "check_payload example_rt 1 (utf8 ''{\"email\":\"a@b.c\",\"exp\":0}'') = Rejected ''payload''"
    by (simp add: check_payload_def parse)
  with verify_signed [OF decode_encode_token [of example_rt "''s3cret''" "utf8 ''{\"email\":\"a@b.c\",\"exp\":0}''"]
         example_digest_length, where now = 1]
       parse
  show ?thesis by simp
qed

text \<open>
  Claim C6, amended. Let the token carry a valid signature and let its payload parse to
  a value other than \<^verbatim>\<open>null\<close>, so that its properties can be read. The checks end
  in \<open>payload\<close> exactly when \<open>email\<close> or \<open>exp\<close> is falsy: absent, \<^verbatim>\<open>null\<close>, \<^verbatim>\<open>false\<close>,
  the number 0 or NaN, or the empty string. When both are truthy the checks go on to
  the conversion of \<open>exp\<close> and the expiry check. A numeric \<open>exp\<close> equal to 0 is rejected
  with \<open>payload\<close>.
\<close>

theorem required_fields:
  assumes "base64urlToBuffer token = raw @ 0x2E # hmac_sha256 rt secret raw"
    and "length (hmac_sha256 rt secret raw) = 32"
    and "JSON_parse_utf8 rt raw = Some p"
    and "get_property p ''email'' = Inr em" and "get_property p ''exp'' = Inr ex"
  shows "(verify rt secret now token = Rejected ''payload'') = (\<not> truthy em \<or> \<not> truthy ex)
    \<and> (truthy em \<and> truthy ex \<longrightarrow>
         verify rt secret now token =
           (case ToNumber rt ex of
              Inl e \<Rightarrow> Thrown e
            | Inr n \<Rightarrow>
                if js_gt (Finite now) n then Rejected ''expired''
                else
                  (case String_of rt em of
                     Inl e \<Rightarrow> Thrown e
                   | Inr s \<Rightarrow> Verified (toLowerCase (trim s)))))
    \<and> (\<not> truthy v) =
         (v \<in> {None, Some JNull, Some (JBool False), Some (JNum NaN), Some (JNum (Finite 0)),
                Some (JStr [])})
    \<and> (q \<noteq> JNull) = (\<exists>w. get_property q k = Inr w)"
proof -
  have v: "verify rt secret now token =
     (if \<not> truthy em \<or> \<not> truthy ex then Rejected ''payload''
      else
        (case ToNumber rt ex of
           Inl e \<Rightarrow> Thrown e
         | Inr n \<Rightarrow>
             if js_gt (Finite now) n then Rejected ''expired''
             else
               (case String_of rt em of
                  Inl e \<Rightarrow> Thrown e
                | Inr s \<Rightarrow> Verified (toLowerCase (trim s)))))"
    using verify_signed [OF assms(1,2)] check_payload_fields [OF assms(3,4,5)] by simp
  have 1: "(verify rt secret now token = Rejected ''payload'') = (\<not> truthy em \<or> \<not> truthy ex)"
    by (auto simp add: v split: sum.splits)
  have 2: "truthy em \<and> truthy ex \<longrightarrow>
         verify rt secret now token =
           (case ToNumber rt ex of
              Inl e \<Rightarrow> Thrown e
            | Inr n \<Rightarrow>
                if js_gt (Finite now) n then Rejected ''expired''
                else
                  (case String_of rt em of
                     Inl e \<Rightarrow> Thrown e
                   | Inr s \<Rightarrow> Verified (toLowerCase (trim s))))"
    by (simp add: v)
  from 1 2 falsy_values [of v] get_property_defined [of q k] show ?thesis by blast
qed

theorem required_fields_witness:
  "verify example_rt ''s3cret'' 1 (encode_token example_rt ''s3cret'' (utf8 ''{\"email\":\"a@b.c\"}''))
     = Rejected ''payload''"
proof -
  have parse: "JSON_parse_utf8 example_rt (utf8 ''{\"email\":\"a@b.c\"}'') = Some (JObj [(''email'', JStr ''a@b.c'')])"
    by (simp add: example_rt_def example_parse_def utf8_def)
  have em: "get_property (JObj [(''email'', JStr ''a@b.c'')]) ''email'' = Inr (Some (JStr ''a@b.c''))"
    by simp
  have ex: "get_property (JObj [(''email'', JStr ''a@b.c'')]) ''exp'' = Inr None"
    by simp
  from required_fields [OF decode_encode_token [of example_rt "''s3cret''" "utf8 ''{\"email\":\"a@b.c\"}''"]
         example_digest_length parse em ex, where now = 1]
  show ?thesis by simp
qed

text \<open>
  Claim C7. Let the database accept every statement and let the table, if it exists,
  hold at most one row per address. After any number of calls for one address, at
  least one, with any sources and at any times, no call has thrown, the table exists
  and holds exactly one row for the address, with the source and the time of the last
  call and the reason \<open>user-request\<close>; the keys are still distinct and the rows of
  other addresses are unchanged. Each call sends two statements, the creation of the
  table if it is missing and one insert with conflict resolution; it never reads.
\<close>

theorem store_idempotent:
  assumes "\<forall>st. \<not> rejects db st"
    and "distinct (map col_email (table db))"
    and "calls \<noteq> []"
  shows "fst (save_all db email calls) = replicate (length calls) None
    \<and> suppression (snd (save_all db email calls)) \<noteq> None
    \<and> filter (\<lambda>r. col_email r = email) (table (snd (save_all db email calls))) =
         [\<lparr>col_email = email, col_source = fst (last calls),
           col_reason = ''user-request'', col_ts = snd (last calls)\<rparr>]
    \<and> length (filter (\<lambda>r. col_email r = email) (table (snd (save_all db email calls)))) = 1
    \<and> distinct (map col_email (table (snd (save_all db email calls))))
    \<and> filter (\<lambda>r. col_email r \<noteq> email) (table (snd (save_all db email calls))) =
         filter (\<lambda>r. col_email r \<noteq> email) (table db)
    \<and> received (snd (save_all db email calls)) =
         received db @
         concat (map (\<lambda>c. [CREATE_TABLE_IF_NOT_EXISTS,
                            INSERT_ON_CONFLICT_DO_UPDATE email (fst c)]) calls)"
proof -
  obtain errors db' where r: "save_all db email calls = (errors, db')"
    by (cases "save_all db email calls")
  from save_all_healthy [OF assms(1,2), where email = email and calls = calls] r assms(3)
  show ?thesis by simp
qed

theorem store_idempotent_witness:
  "fst (save_all example_db ''jane.doe@example.com'' [(''web'', 1000), (''one-click'', 2000)])
     = [None, None]
   \<and> filter (\<lambda>r. col_email r = ''jane.doe@example.com'')
        (table (snd (save_all example_db ''jane.doe@example.com''
                       [(''web'', 1000), (''one-click'', 2000)]))) =
       [\<lparr>col_email = ''jane.doe@example.com'', col_source = ''one-click'',
         col_reason = ''user-request'', col_ts = 2000\<rparr>]
   \<and> filter (\<lambda>r. col_email r \<noteq> ''jane.doe@example.com'')
        (table (snd (save_all example_db ''jane.doe@example.com''
                       [(''web'', 1000), (''one-click'', 2000)]))) = []"
  using store_idempotent [where db = example_db and email = "''jane.doe@example.com''"
          and calls = "[(''web'', 1000), (''one-click'', 2000)]"]
  by (simp add: example_db_def table_def replicate_num)

text \<open>
  Claim C8. Let the token of a request verify. Whatever the pool is (absent, working or
  failing), the response object of the automated method has status code 204 and an empty
  body; that of the human method has status code 200 and the confirmation page as body
  when no redirect is configured, and status code 302, an empty body and the header
  \<open>Location\<close> when one is (the location being the one the URL library builds from it).
  In each case the headers are those set on the way and the handler does not throw.
  Without a pool the store operation changes nothing and reports no error. When the
  database rejects one of the two statements the store operation throws, and the handler
  only writes one line with \<^verbatim>\<open>console.error\<close>.
\<close>

theorem persistence_failures_absorbed:
  assumes "first_token (query_token req) = Some tok" and "tok \<noteq> []"
    and "verify rt (UNSUB_SECRET env) now tok = Verified email"
  shows "(http_method req = ''POST'' \<longrightarrow>
            statusCode (res (handler rt env now pool req)) = 204
            \<and> sent (res (handler rt env now pool req)) = Some (Text [])
            \<and> headers (res (handler rt env now pool req)) =
                 [(''Cache-Control'', ''no-store, max-age=0'')]
            \<and> thrown (handler rt env now pool req) = None)
    \<and> (http_method req = ''GET'' \<and> VISIBLE_UNSUB_REDIRECT env = [] \<longrightarrow>
            statusCode (res (handler rt env now pool req)) = 200
            \<and> sent (res (handler rt env now pool req)) =
                 Some (ConfirmationPage (esc (maskEmail email)))
            \<and> headers (res (handler rt env now pool req)) =
                 [(''Content-Type'', ''text/html; charset=utf-8''),
                  (''Cache-Control'', ''no-store, max-age=0'')]
            \<and> thrown (handler rt env now pool req) = None)
    \<and> (http_method req = ''GET'' \<and> VISIBLE_UNSUB_REDIRECT env \<noteq> []
         \<and> URL_with_search rt (VISIBLE_UNSUB_REDIRECT env)
              [(''status'', ''success''), (''email'', maskEmail email)] = Some location \<longrightarrow>
            statusCode (res (handler rt env now pool req)) = 302
            \<and> sent (res (handler rt env now pool req)) = Some (Text [])
            \<and> getHeader (res (handler rt env now pool req)) ''Location'' = Some location
            \<and> headers (res (handler rt env now pool req)) =
                 [(''Location'', location), (''Cache-Control'', ''no-store, max-age=0'')]
            \<and> thrown (handler rt env now pool req) = None)
    \<and> saveSuppression None email source = (None, None)
    \<and> (rejects db CREATE_TABLE_IF_NOT_EXISTS
         \<or> rejects db (INSERT_ON_CONFLICT_DO_UPDATE email source) \<longrightarrow>
            fst (saveSuppression (Some db) email source) = Some QueryError)
    \<and> ((http_method req = ''GET'' \<or> http_method req = ''POST'')
         \<and> fst (saveSuppression pool email
                   (if http_method req = ''POST'' then ''one-click'' else ''web'')) \<noteq> None \<longrightarrow>
            console_error (handler rt env now pool req) = [''suppression save failed:''])"
proof (intro conjI impI)
  show "saveSuppression None email source = (None, None)"
    by (simp add: saveSuppression_def)
  show "fst (saveSuppression (Some db) email source) = Some QueryError"
    if "rejects db CREATE_TABLE_IF_NOT_EXISTS
         \<or> rejects db (INSERT_ON_CONFLICT_DO_UPDATE email source)"
    using that by (rule saveSuppression_rejected)
  show "console_error (handler rt env now pool req) = [''suppression save failed:'']"
    if h: "(http_method req = ''GET'' \<or> http_method req = ''POST'')
         \<and> fst (saveSuppression pool email
                   (if http_method req = ''POST'' then ''one-click'' else ''web'')) \<noteq> None"
  proof -
    from h have m: "http_method req = ''GET'' \<or> http_method req = ''POST''" by simp
    from handler_verified(2) [OF m assms, of pool] h show ?thesis
      by (auto split: option.splits)
  qed
next
  assume "http_method req = ''POST''"
  from handler_verified_post [OF this assms, of pool]
  show "statusCode (res (handler rt env now pool req)) = 204"
    and "sent (res (handler rt env now pool req)) = Some (Text [])"
    and "headers (res (handler rt env now pool req)) =
           [(''Cache-Control'', ''no-store, max-age=0'')]"
    and "thrown (handler rt env now pool req) = None"
    by (simp_all add: send_def status_def setHeader_def res0_def)
next
  assume "http_method req = ''GET'' \<and> VISIBLE_UNSUB_REDIRECT env = []"
  then have g: "http_method req = ''GET''" and v: "VISIBLE_UNSUB_REDIRECT env = []" by simp_all
  from handler_verified_page [OF g v assms, of pool]
  show "statusCode (res (handler rt env now pool req)) = 200"
    and "sent (res (handler rt env now pool req)) =
           Some (ConfirmationPage (esc (maskEmail email)))"
    and "headers (res (handler rt env now pool req)) =
           [(''Content-Type'', ''text/html; charset=utf-8''),
            (''Cache-Control'', ''no-store, max-age=0'')]"
    and "thrown (handler rt env now pool req) = None"
    by (simp_all add: send_def status_def setHeader_def res0_def)
next
  assume "http_method req = ''GET'' \<and> VISIBLE_UNSUB_REDIRECT env \<noteq> []
         \<and> URL_with_search rt (VISIBLE_UNSUB_REDIRECT env)
              [(''status'', ''success''), (''email'', maskEmail email)] = Some location"
  then have g: "http_method req = ''GET''" and v: "VISIBLE_UNSUB_REDIRECT env \<noteq> []"
    and u: "URL_with_search rt (VISIBLE_UNSUB_REDIRECT env)
              [(''status'', ''success''), (''email'', maskEmail email)] = Some location"
    by simp_all
  from handler_verified_redirect [OF g v u assms, of pool]
  show "statusCode (res (handler rt env now pool req)) = 302"
    and "sent (res (handler rt env now pool req)) = Some (Text [])"
    and "getHeader (res (handler rt env now pool req)) ''Location'' = Some location"
    and "headers (res (handler rt env now pool req)) =
           [(''Location'', location), (''Cache-Control'', ''no-store, max-age=0'')]"
    and "thrown (handler rt env now pool req) = None"
    by (simp_all add: send_def status_def setHeader_def getHeader_def res0_def)
qed

theorem persistence_failures_absorbed_witness:
  "statusCode (res (handler example_rt
          \<lparr>env_UNSUB_SECRET = Some ''s3cret'', env_VISIBLE_UNSUB_REDIRECT = None\<rparr>
          1700000000 (Some failing_db)
          \<lparr>http_method = ''POST'', query_token = One
             (encode_token example_rt ''s3cret'' (utf8 ''{\"email\":\"Jane.Doe@Example.com \",\"exp\":4102444800}''))\<rparr>))
     = 204
   \<and> sent (res (handler example_rt
          \<lparr>env_UNSUB_SECRET = Some ''s3cret'', env_VISIBLE_UNSUB_REDIRECT = None\<rparr>
          1700000000 (Some failing_db)
          \<lparr>http_method = ''POST'', query_token = One
             (encode_token example_rt ''s3cret'' (utf8 ''{\"email\":\"Jane.Doe@Example.com \",\"exp\":4102444800}''))\<rparr>))
     = Some (Text [])
   \<and> console_error (handler example_rt
          \<lparr>env_UNSUB_SECRET = Some ''s3cret'', env_VISIBLE_UNSUB_REDIRECT = None\<rparr>
          1700000000 (Some failing_db)
          \<lparr>http_method = ''POST'', query_token = One
             (encode_token example_rt ''s3cret'' (utf8 ''{\"email\":\"Jane.Doe@Example.com \",\"exp\":4102444800}''))\<rparr>)
     = [''suppression save failed:'']
   \<and> statusCode (res (handler example_rt
          \<lparr>env_UNSUB_SECRET = Some ''s3cret'', env_VISIBLE_UNSUB_REDIRECT = Some ''https://x.org/u''\<rparr>
          1700000000 None
          \<lparr>http_method = ''GET'', query_token = One
             (encode_token example_rt ''s3cret'' (utf8 ''{\"email\":\"Jane.Doe@Example.com \",\"exp\":4102444800}''))\<rparr>))
     = 302
   \<and> getHeader (res (handler example_rt
          \<lparr>env_UNSUB_SECRET = Some ''s3cret'', env_VISIBLE_UNSUB_REDIRECT = Some ''https://x.org/u''\<rparr>
          1700000000 None
          \<lparr>http_method = ''GET'', query_token = One
             (encode_token example_rt ''s3cret'' (utf8 ''{\"email\":\"Jane.Doe@Example.com \",\"exp\":4102444800}''))\<rparr>))
        ''Location''
     = Some ''https://x.org/u?status=success&email=ja***%40example.com''
   \<and> statusCode (res (handler example_rt
          \<lparr>env_UNSUB_SECRET = Some ''s3cret'', env_VISIBLE_UNSUB_REDIRECT = None\<rparr>
          1700000000 (Some failing_db)
          \<lparr>http_method = ''GET'', query_token = One
             (encode_token example_rt ''s3cret'' (utf8 ''{\"email\":\"Jane.Doe@Example.com \",\"exp\":4102444800}''))\<rparr>))
     = 200
   \<and> sent (res (handler example_rt
          \<lparr>env_UNSUB_SECRET = Some ''s3cret'', env_VISIBLE_UNSUB_REDIRECT = None\<rparr>
          1700000000 (Some failing_db)
          \<lparr>http_method = ''GET'', query_token = One
             (encode_token example_rt ''s3cret'' (utf8 ''{\"email\":\"Jane.Doe@Example.com \",\"exp\":4102444800}''))\<rparr>))
     = Some (ConfirmationPage ''ja***@example.com'')"
proof -
  let ?tok = "encode_token example_rt ''s3cret'' (utf8 ''{\"email\":\"Jane.Doe@Example.com \",\"exp\":4102444800}'')"
  let ?env1 = "\<lparr>env_UNSUB_SECRET = Some ''s3cret'', env_VISIBLE_UNSUB_REDIRECT = None\<rparr>"
  let ?env2 = "\<lparr>env_UNSUB_SECRET = Some ''s3cret'', env_VISIBLE_UNSUB_REDIRECT = Some ''https://x.org/u''\<rparr>"
  let ?post = "\<lparr>http_method = ''POST'', query_token = One ?tok\<rparr>"
  let ?get = "\<lparr>http_method = ''GET'', query_token = One ?tok\<rparr>"
  have s1: "UNSUB_SECRET ?env1 = ''s3cret''" and s2: "UNSUB_SECRET ?env2 = ''s3cret''"
    by (simp_all add: UNSUB_SECRET_def or_default_def)
  have r1: "VISIBLE_UNSUB_REDIRECT ?env1 = []"
    by (simp add: VISIBLE_UNSUB_REDIRECT_def or_default_def)
  have r2: "VISIBLE_UNSUB_REDIRECT ?env2 = ''https://x.org/u''"
    by (simp add: VISIBLE_UNSUB_REDIRECT_def or_default_def)
  have t1: "first_token (query_token ?post) = Some ?tok"
    and t2: "first_token (query_token ?get) = Some ?tok"
    by (simp_all add: first_token_def)
  have ne: "?tok \<noteq> []"
    using decode_encode_token [of example_rt "''s3cret''" "utf8 ''{\"email\":\"Jane.Doe@Example.com \",\"exp\":4102444800}''"] base64urlToBuffer_Nil
    by auto
  have v1: "verify example_rt (UNSUB_SECRET ?env1) 1700000000 ?tok = Verified ''jane.doe@example.com''"
    and v2: "verify example_rt (UNSUB_SECRET ?env2) 1700000000 ?tok = Verified ''jane.doe@example.com''"
    by (simp_all only: s1 s2 example_jane_verified)
  have url: "URL_with_search example_rt (VISIBLE_UNSUB_REDIRECT ?env2)
       [(''status'', ''success''), (''email'', maskEmail ''jane.doe@example.com'')]
       = Some ''https://x.org/u?status=success&email=ja***%40example.com''"
    by (simp add: r2 example_rt_def example_URL_def maskEmail_def)
  have page: "esc (maskEmail ''jane.doe@example.com'') = ''ja***@example.com''"
    by (simp add: maskEmail_def esc_def esc_char_def)
  have fail: "fst (saveSuppression (Some failing_db) ''jane.doe@example.com'' ''one-click'') \<noteq> None"
    by (simp add: saveSuppression_def pool_query_def failing_db_def)
  note a = persistence_failures_absorbed [OF t1 ne v1, where pool = "Some failing_db"]
  note b = persistence_failures_absorbed [OF t2 ne v2, where pool = None
             and location = "''https://x.org/u?status=success&email=ja***%40example.com''"]
  note c = persistence_failures_absorbed [OF t2 ne v1, where pool = "Some failing_db"]
  from a fail have 1: "statusCode (res (handler example_rt ?env1 1700000000 (Some failing_db) ?post)) = 204"
    and 2: "sent (res (handler example_rt ?env1 1700000000 (Some failing_db) ?post)) = Some (Text [])"
    and 3: "console_error (handler example_rt ?env1 1700000000 (Some failing_db) ?post)
     = [''suppression save failed:'']"
    by simp_all
  from b url r2 have 4: "statusCode (res (handler example_rt ?env2 1700000000 None ?get)) = 302"
    and 5: "getHeader (res (handler example_rt ?env2 1700000000 None ?get)) ''Location''
     = Some ''https://x.org/u?status=success&email=ja***%40example.com''"
    by simp_all
  from c r1 page have 6: "statusCode (res (handler example_rt ?env1 1700000000 (Some failing_db) ?get)) = 200"
    and 7: "sent (res (handler example_rt ?env1 1700000000 (Some failing_db) ?get))
     = Some (ConfirmationPage ''ja***@example.com'')"
    by simp_all
  from 1 2 3 4 5 6 7 show ?thesis by simp
qed

text \<open>
  Outside the two forms of the claim below: an input whose part after the first \<open>@\<close> is
  empty is returned unchanged, and of an input with several \<open>@\<close> only the part between
  the first two is kept as the domain.
\<close>

lemma maskEmail_other_inputs:
  "maskEmail ''ab@'' = ''ab@''" "maskEmail ''abc@d.e@f'' = ''ab***@d.e''"
  by (simp_all add: maskEmail_def)

text \<open>
  Claim C9. Masking an address \<open>local@domain\<close> (one separator, a domain that is not
  empty) keeps the first code unit of a local part of length at most 2 and the first
  two code units of a longer one, followed by \<open>***@\<close> and the domain. An input
  without \<open>@\<close> is returned unchanged. The address \<open>jane.doe@example.com\<close> is masked
  as \<open>ja***@example.com\<close>.
\<close>

theorem maskEmail_spec:
  "(CHR ''@'' \<notin> set local \<and> CHR ''@'' \<notin> set domain \<and> domain \<noteq> [] \<longrightarrow>
      maskEmail (local @ ''@'' @ domain) =
        (if length local \<le> 2 then take 1 local @ ''***@'' @ domain
         else take 2 local @ ''***@'' @ domain))
   \<and> (CHR ''@'' \<notin> set s \<longrightarrow> maskEmail s = s)
   \<and> maskEmail ''jane.doe@example.com'' = ''ja***@example.com''"
proof (intro conjI impI)
  assume h: "CHR ''@'' \<notin> set local \<and> CHR ''@'' \<notin> set domain \<and> domain \<noteq> []"
  then have "split (CHR ''@'') (local @ ''@'' @ domain) = [local, domain]"
    by (simp add: split_append_sep split_no_sep)
  with h show "maskEmail (local @ ''@'' @ domain) =
        (if length local \<le> 2 then take 1 local @ ''***@'' @ domain
         else take 2 local @ ''***@'' @ domain)"
    by (simp add: maskEmail_def)
next
  assume "CHR ''@'' \<notin> set s"
  then show "maskEmail s = s"
    by (simp add: maskEmail_def split_no_sep)
next
  show "maskEmail ''jane.doe@example.com'' = ''ja***@example.com''"
    by (simp add: maskEmail_def)
qed

theorem maskEmail_spec_witness:
  "maskEmail (''ab'' @ ''@'' @ ''x.org'') = ''a***@x.org''
   \<and> maskEmail (''bob'' @ ''@'' @ ''x.org'') = ''bo***@x.org''
   \<and> maskEmail ''nobody'' = ''nobody''"
  using maskEmail_spec [of "''ab''" "''x.org''" "''nobody''"]
        maskEmail_spec [of "''bob''" "''x.org''" "''nobody''"]
  by simp

text \<open>
  Claim C10. Whatever the request, the configuration, the clock, the pool and the
  runtime are, the response object the handler leaves behind carries the header
  \<open>Cache-Control\<close> with the value \<open>no-store, max-age=0\<close>. It is set first and no branch
  removes or replaces it; this includes the calls that throw.
\<close>

theorem cache_control_always:
  "getHeader (res (handler rt env now pool req)) ''Cache-Control'' = Some ''no-store, max-age=0''"
  by (simp add: handler_def Let_def getHeader_def setHeader_def status_def send_def res0_def
        split: option.splits outcome.splits prod.splits)

theorem cache_control_always_witness:
  "getHeader (res (handler example_rt
       \<lparr>env_UNSUB_SECRET = None, env_VISIBLE_UNSUB_REDIRECT = None\<rparr> 0 None
       \<lparr>http_method = ''DELETE'', query_token = Absent\<rparr>)) ''Cache-Control''
     = Some ''no-store, max-age=0''"
  by (rule cache_control_always)

end